theory Spec2Isabelle
  imports Main "HOL-Library.Word" "HOL-Library.Sublist" "HOL-Library.Monad_Syntax"
begin

section \<open>JavaScript strings\<close>

text \<open>
  A JavaScript string is a sequence of UTF-16 code units. String literals of the source
  are written \<open>lit ''...''\<close>.
\<close>

type_synonym jsstring = "16 word list"

definition lit :: "string \<Rightarrow> jsstring" where
  "lit s = map of_char s"

text \<open>
  \<open>String.prototype.trim\<close> removes the code units of the grammar's WhiteSpace and
  LineTerminator productions from both ends: TAB, LF, VT, FF, CR, SP, NBSP, the
  Unicode space separators, LS, PS and the byte order mark.
\<close>

definition is_space :: "16 word \<Rightarrow> bool" where
  "is_space c \<longleftrightarrow>
     c \<in> set [0x09, 0x0A, 0x0B, 0x0C, 0x0D, 0x20, 0xA0, 0x1680, 0x2028, 0x2029,
              0x202F, 0x205F, 0x3000, 0xFEFF]
     \<or> (0x2000 \<le> c \<and> c \<le> 0x200A)"

definition trim :: "jsstring \<Rightarrow> jsstring" where
  "trim s = rev (dropWhile is_space (rev (dropWhile is_space s)))"

text \<open>
  \<open>s.indexOf(p)\<close>: the least position at which \<open>p\<close> occurs in \<open>s\<close>, or \<open>-1\<close>.
\<close>

fun indexOf :: "jsstring \<Rightarrow> jsstring \<Rightarrow> int" where
  "indexOf [] p = (if p = [] then 0 else - 1)"
| "indexOf (c # t) p =
     (if prefix p (c # t) then 0
      else (let r = indexOf t p in if r < 0 then - 1 else r + 1))"

text \<open>
  \<open>s.substr(start)\<close> and \<open>s.substr(start, n)\<close> for a start \<open>0 \<le> start\<close>;
  a count \<open>n \<le> 0\<close> gives the empty string, a count past the end is cut at the end.
\<close>

definition substr_from :: "jsstring \<Rightarrow> nat \<Rightarrow> jsstring" where
  "substr_from s start = drop start s"

definition substr :: "jsstring \<Rightarrow> nat \<Rightarrow> int \<Rightarrow> jsstring" where
  "substr s start n = (if n \<le> 0 then [] else take (nat n) (drop start s))"

text \<open>
  \<open>s.split(sep)\<close> for a separator of one code unit: always at least one piece.
\<close>

fun split_str :: "jsstring \<Rightarrow> 16 word \<Rightarrow> jsstring list" where
  "split_str [] sep = [[]]"
| "split_str (c # cs) sep =
     (if c = sep then [] # split_str cs sep
      else (case split_str cs sep of
              [] \<Rightarrow> [[c]]
            | l # ls \<Rightarrow> (c # l) # ls))"

fun join :: "jsstring list \<Rightarrow> jsstring \<Rightarrow> jsstring" where
  "join [] sep = []"
| "join [x] sep = x"
| "join (x # y # ys) sep = x @ sep @ join (y # ys) sep"

text \<open>
  \<open>s.replace(/(\r\n|\n|\r)/gm, "")\<close>: every CR and every LF is removed.
\<close>

definition strip_newlines :: "jsstring \<Rightarrow> jsstring" where
  "strip_newlines s = filter (\<lambda>c. c \<noteq> 0x0D \<and> c \<noteq> 0x0A) s"

section \<open>The comment normalizer\<close>

text \<open>
  \<open>parseComment\<close> on a string argument (lines 166 to 187); \<open>comment_of\<close> below
  adds the arguments that are not strings. The empty string is falsy and is returned
  as it is. The two tests are two separate \<open>if\<close> statements: a comment that begins
  with the block marker after the line marker has been removed is processed as a block
  comment too.
\<close>

definition clean_cline :: "jsstring \<Rightarrow> jsstring" where
  "clean_cline l =
     (let cline = trim l
      in if indexOf cline (lit ''*'') = 0 then trim (substr_from cline 1) else cline)"

definition parseComment :: "jsstring \<Rightarrow> jsstring" where
  "parseComment comment =
     (if comment = [] then comment
      else
        let c1 = trim comment;
            c2 = (if indexOf c1 (lit ''//'') = 0 then trim (substr_from c1 2) else c1)
        in if indexOf c2 (lit ''/*'') = 0
           then
             (let clines = split_str (trim (substr c2 2 (int (length c2) - 4))) 0x0A;
                  clines' = map clean_cline clines
              in trim (join (filter (\<lambda>i. i \<noteq> []) clines') (lit [CHR 0x0D, CHR 0x0A])))
           else c2)"

section \<open>JavaScript values\<close>

text \<open>
  \<open>JSON.parse\<close> returns a dynamically typed value and the cast to \<open>RawMessage\<close>
  (line 57) checks nothing, so the handler is modelled on JavaScript values. An object
  is the list of its own properties, each key once, in enumeration order.

  Numbers are the doubles that are integers, and \<open>NaN\<close>; fractions and infinities are
  outside the model. A double holds every integer up to \<open>2 ^ 53\<close> in magnitude; beyond,
  it has 53 significant bits, and the result of an operation is rounded to the nearest
  double, a tie to the one with the even significand.
\<close>

datatype number = Num int | NaN

datatype jsval =
    JUndefined
  | JNull
  | JBool bool
  | JNumber number
  | JString jsstring
  | JArray "jsval list"
  | JObject "(jsstring \<times> jsval) list"

text \<open>The number of low bits that a double drops from an integer of this magnitude.\<close>

function shift_of :: "nat \<Rightarrow> nat" where
  "shift_of a = (if a < 2 ^ 53 then 0 else Suc (shift_of (a div 2)))"
  by pat_completeness auto
termination
  by (relation "measure (\<lambda>a. a)") auto

definition round_double :: "int \<Rightarrow> int" where
  "round_double y =
     (if \<bar>y\<bar> \<le> 2 ^ 53 then y
      else
        (let a = nat \<bar>y\<bar>;
             e = shift_of a;
             q = a div 2 ^ e;
             r = a mod 2 ^ e;
             q' = (if 2 * r > 2 ^ e \<or> (2 * r = 2 ^ e \<and> odd q) then q + 1 else q)
         in sgn y * int (q' * 2 ^ e)))"

text \<open>
  What the platform provides and this repository does not define: \<open>JSON.parse\<close>
  (\<open>None\<close> when it throws a SyntaxError), the number a string denotes and the string
  of a number. None of the last two raises.
\<close>

record platform =
  JSON_parse :: "jsstring \<Rightarrow> jsval option"
  StringToNumber :: "jsstring \<Rightarrow> number"
  NumberToString :: "number \<Rightarrow> jsstring"

fun truthy :: "jsval \<Rightarrow> bool" where
  "truthy JUndefined = False"
| "truthy JNull = False"
| "truthy (JBool b) = b"
| "truthy (JNumber (Num n)) = (n \<noteq> 0)"
| "truthy (JNumber NaN) = False"
| "truthy (JString s) = (s \<noteq> [])"
| "truthy (JArray xs) = True"
| "truthy (JObject kvs) = True"

text \<open>\<open>a || b\<close>\<close>

definition js_or :: "jsval \<Rightarrow> jsval \<Rightarrow> jsval" where
  "js_or a b = (if truthy a then a else b)"

text \<open>
  Exceptions are \<open>None\<close>: the only handler of the source, the \<open>catch\<close> of line 96,
  does not look at the exception.

  \<open>v.k\<close> for the property names the source reads (\<open>line\<close>, \<open>column\<close>, \<open>type\<close>,
  \<open>error\<close>, \<open>message\<close>, \<open>variable\<close>, \<open>comment\<close>, \<open>definitions\<close>, \<open>usage\<close>), none
  of which a built-in prototype defines: a TypeError on \<open>undefined\<close> and \<open>null\<close>, the
  own property of an object, \<open>undefined\<close> otherwise.
\<close>

fun get_prop :: "jsval \<Rightarrow> jsstring \<Rightarrow> jsval option" where
  "get_prop JUndefined k = None"
| "get_prop JNull k = None"
| "get_prop (JObject kvs) k = Some (case map_of kvs k of None \<Rightarrow> JUndefined | Some v \<Rightarrow> v)"
| "get_prop v k = Some JUndefined"

fun key_of_nat :: "nat \<Rightarrow> jsstring" where
  "key_of_nat n =
     (if n < 10 then [of_nat (48 + n)]
      else key_of_nat (n div 10) @ [of_nat (48 + n mod 10)])"

text \<open>\<open>v[i]\<close> for an index \<open>i\<close>: out of range is \<open>undefined\<close>.\<close>

fun get_index :: "jsval \<Rightarrow> nat \<Rightarrow> jsval option" where
  "get_index JUndefined i = None"
| "get_index JNull i = None"
| "get_index (JArray xs) i = Some (if i < length xs then xs ! i else JUndefined)"
| "get_index (JString s) i = Some (if i < length s then JString [s ! i] else JUndefined)"
| "get_index (JObject kvs) i =
     Some (case map_of kvs (key_of_nat i) of None \<Rightarrow> JUndefined | Some v \<Rightarrow> v)"
| "get_index v i = Some JUndefined"

text \<open>
  The values \<open>v[i]\<close> that \<open>for (let i in v)\<close> visits, in order: nothing for
  \<open>undefined\<close>, \<open>null\<close>, a boolean or a number.
\<close>

fun for_in :: "jsval \<Rightarrow> jsval list" where
  "for_in (JArray xs) = xs"
| "for_in (JString s) = map (\<lambda>c. JString [c]) s"
| "for_in (JObject kvs) =
     map (\<lambda>k. case map_of kvs k of None \<Rightarrow> JUndefined | Some v \<Rightarrow> v) (map fst kvs)"
| "for_in v = []"

text \<open>
  The string of a value, \<open>None\<close> for a TypeError. An array or an object is converted by
  its \<open>toString\<close> method (\<open>valueOf\<close> returns the object itself, which is no primitive).
  The properties of a JSON object are data, so an own \<open>toString\<close> is not callable and
  the conversion is a TypeError; otherwise the inherited method gives
  \<open>[object Object]\<close>. An array is joined with commas, an element that is \<open>undefined\<close> or
  \<open>null\<close> as the empty string.
\<close>

fun ToPrimitive :: "platform \<Rightarrow> jsval \<Rightarrow> jsstring option" where
  "ToPrimitive pf (JObject kvs) =
     (case map_of kvs (lit ''toString'') of
        None \<Rightarrow> Some (lit ''[object Object]'')
      | Some v \<Rightarrow> None)"
| "ToPrimitive pf (JArray xs) =
     map_option (\<lambda>ss. join ss (lit '',''))
       (those (map (\<lambda>x. case x of
                           JUndefined \<Rightarrow> Some []
                         | JNull \<Rightarrow> Some []
                         | _ \<Rightarrow> ToPrimitive pf x) xs))"
| "ToPrimitive pf JUndefined = Some (lit ''undefined'')"
| "ToPrimitive pf JNull = Some (lit ''null'')"
| "ToPrimitive pf (JBool b) = Some (if b then lit ''true'' else lit ''false'')"
| "ToPrimitive pf (JNumber n) = Some (NumberToString pf n)"
| "ToPrimitive pf (JString s) = Some s"

text \<open>The number of a value, \<open>None\<close> for a TypeError.\<close>

definition ToNumber :: "platform \<Rightarrow> jsval \<Rightarrow> number option" where
  "ToNumber pf v =
     (case v of
        JUndefined \<Rightarrow> Some NaN
      | JNull \<Rightarrow> Some (Num 0)
      | JBool b \<Rightarrow> Some (Num (if b then 1 else 0))
      | JNumber n \<Rightarrow> Some n
      | JString s \<Rightarrow> Some (StringToNumber pf s)
      | _ \<Rightarrow> map_option (StringToNumber pf) (ToPrimitive pf v))"

text \<open>\<open>v - 1\<close>\<close>

definition minus_one :: "platform \<Rightarrow> jsval \<Rightarrow> jsval option" where
  "minus_one pf v =
     map_option
       (\<lambda>n. JNumber (case n of Num i \<Rightarrow> Num (round_double (i - 1)) | NaN \<Rightarrow> NaN))
       (ToNumber pf v)"

text \<open>
  \<open>v == s\<close> for a string \<open>s\<close>: a boolean and a number are compared with the number of
  \<open>s\<close>, an array and an object are converted to a primitive first.
\<close>

definition loose_eq :: "platform \<Rightarrow> jsval \<Rightarrow> jsstring \<Rightarrow> bool option" where
  "loose_eq pf v s =
     (case v of
        JUndefined \<Rightarrow> Some False
      | JNull \<Rightarrow> Some False
      | JBool b \<Rightarrow> Some (StringToNumber pf s = Num (if b then 1 else 0))
      | JNumber n \<Rightarrow> Some (n \<noteq> NaN \<and> StringToNumber pf s = n)
      | JString t \<Rightarrow> Some (t = s)
      | _ \<Rightarrow> map_option (\<lambda>t. t = s) (ToPrimitive pf v))"

section \<open>Results\<close>

datatype Position = new_Position (line: jsval) (character: jsval)

datatype Range = new_Range (start: Position) (endp: Position)

text \<open>\<open>Error\<close> and \<open>Warning\<close> extend \<open>Message\<close> and add nothing; a \<open>null\<close> range is \<open>None\<close>.\<close>

datatype Message = new_Message (message: jsval) (msg_range: "Range option")

record VariableInfo =
  name :: jsval
  comment :: jsval
  definitions :: "Range list"
  usage :: "Range list"

record ParseInfo =
  errors :: "Message list"
  warnings :: "Message list"
  variables :: "VariableInfo list"

definition new_ParseInfo :: ParseInfo where
  "new_ParseInfo = \<lparr>errors = [], warnings = [], variables = []\<rparr>"

section \<open>The position mapper\<close>

definition parsePosition :: "platform \<Rightarrow> jsval \<Rightarrow> Range option" where
  "parsePosition pf position =
     do {
       l \<leftarrow> get_prop position (lit ''line'');
       l0 \<leftarrow> get_index l 0;
       start_line \<leftarrow> minus_one pf l0;
       c \<leftarrow> get_prop position (lit ''column'');
       c0 \<leftarrow> get_index c 0;
       start_character \<leftarrow> minus_one pf c0;
       l1 \<leftarrow> get_index l 1;
       end_line \<leftarrow> minus_one pf l1;
       c1 \<leftarrow> get_index c 1;
       Some (new_Range (new_Position start_line start_character)
                       (new_Position end_line c1))
     }"

text \<open>\<open>start \<le> end\<close> in line-then-character order, for positions that are numbers.\<close>

definition range_ordered :: "Range \<Rightarrow> bool" where
  "range_ordered r =
     (case (line (start r), character (start r), line (endp r), character (endp r)) of
        (JNumber (Num l1), JNumber (Num c1), JNumber (Num l2), JNumber (Num c2)) \<Rightarrow>
          l1 < l2 \<or> (l1 = l2 \<and> c1 \<le> c2)
      | _ \<Rightarrow> False)"

section \<open>The stream decoder\<close>

text \<open>
  \<open>parseComment\<close> as the handler calls it, on the value of \<open>message.comment\<close>:
  a falsy value is returned as it is, and a truthy value that is not a string has no
  \<open>trim\<close> method, which is a TypeError.
\<close>

definition comment_of :: "jsval \<Rightarrow> jsval option" where
  "comment_of v =
     (if truthy v
      then (case v of JString s \<Rightarrow> Some (JString (parseComment s)) | _ \<Rightarrow> None)
      else Some v)"

text \<open>
  The \<open>position\<close> of lines 60 to 63: \<open>null\<close> (\<open>Some None\<close>) unless the message has a
  truthy \<open>line\<close> and a truthy \<open>column\<close>.
\<close>

definition preload_position :: "platform \<Rightarrow> jsval \<Rightarrow> Range option option" where
  "preload_position pf msg =
     do {
       l \<leftarrow> get_prop msg (lit ''line'');
       c \<leftarrow> get_prop msg (lit ''column'');
       if truthy l \<and> truthy c
       then map_option Some (parsePosition pf msg)
       else Some None
     }"

text \<open>
  The body of the \<open>try\<close> block after \<open>JSON.parse\<close> (lines 59 to 95). Every exception
  is raised before the \<open>push\<close> of its branch, so a message either appends one entry or
  leaves the result as it was.
\<close>

definition decode_message :: "platform \<Rightarrow> ParseInfo \<Rightarrow> jsval \<Rightarrow> ParseInfo option" where
  "decode_message pf info msg =
     do {
       position \<leftarrow> preload_position pf msg;
       t \<leftarrow> get_prop msg (lit ''type'');
       is_error \<leftarrow> loose_eq pf t (lit ''error'');
       if is_error then
         do {
           e \<leftarrow> get_prop msg (lit ''error'');
           m \<leftarrow> get_prop msg (lit ''message'');
           Some (info\<lparr>errors := errors info @ [new_Message (js_or e m) position]\<rparr>)
         }
       else
         do {
           is_warning \<leftarrow> loose_eq pf t (lit ''warning'');
           if is_warning then
             do {
               e \<leftarrow> get_prop msg (lit ''error'');
               m \<leftarrow> get_prop msg (lit ''message'');
               Some (info\<lparr>warnings := warnings info @ [new_Message (js_or e m) position]\<rparr>)
             }
           else
             do {
               is_variable \<leftarrow> loose_eq pf t (lit ''variable'');
               if is_variable then
                 do {
                   n \<leftarrow> get_prop msg (lit ''variable'');
                   cv \<leftarrow> get_prop msg (lit ''comment'');
                   cm \<leftarrow> comment_of cv;
                   dv \<leftarrow> get_prop msg (lit ''definitions'');
                   ds \<leftarrow> those (map (parsePosition pf) (for_in dv));
                   uv \<leftarrow> get_prop msg (lit ''usage'');
                   us \<leftarrow> those (map (parsePosition pf) (for_in uv));
                   Some (info\<lparr>variables := variables info @
                           [\<lparr>name = n, comment = cm, definitions = ds, usage = us\<rparr>]\<rparr>)
                 }
               else Some info
             }
         }
     }"

text \<open>
  One turn of the loop over the lines (lines 51 to 98), on the result and the console.
\<close>

definition decode_line ::
  "platform \<Rightarrow> ParseInfo \<times> jsstring list \<Rightarrow> jsstring \<Rightarrow> ParseInfo \<times> jsstring list" where
  "decode_line pf st ln =
     (if strip_newlines ln = [] then st
      else
        (case Option.bind (JSON_parse pf ln) (decode_message pf (fst st)) of
           Some info' \<Rightarrow> (info', snd st)
         | None \<Rightarrow> (fst st, snd st @ [lit ''Failed to parse response: >'' @ ln @ lit ''<''])))"

text \<open>
  The \<open>data\<close> handler (lines 44 to 100). The chunk is the text \<open>data.toString()\<close>;
  \<open>data\<close> is a buffer object, which is truthy, so the guard of line 45 never returns.
\<close>

definition on_data ::
  "platform \<Rightarrow> ParseInfo \<times> jsstring list \<Rightarrow> jsstring \<Rightarrow> ParseInfo \<times> jsstring list" where
  "on_data pf st chunk = foldl (decode_line pf) st (split_str chunk 0x0A)"

section \<open>The process runner\<close>

text \<open>
  \<open>Java.spawn\<close> is not part of this file: its result, a child process or a falsy
  value, is an argument. What the input stream of the child does with the text is the
  child's: it takes it, or \<open>write\<close> throws, or \<open>end\<close> throws (with the text of the
  exception as the log line shows it).
\<close>

datatype child = Accepts | WriteThrows jsstring | EndThrows jsstring

text \<open>
  A call of one of the two callbacks. \<open>success\<close> is always called with the \<open>info\<close>
  object of the run.
\<close>

datatype call = Success | Reject jsval

record run =
  run_info :: "ParseInfo option"
  stdin :: "jsstring list"
  stdin_ended :: bool
  killed :: bool
  calls :: "call list"
  console :: "jsstring list"

definition process :: "child option \<Rightarrow> jsstring \<Rightarrow> run" where
  "process ch contents =
     (case ch of
        None \<Rightarrow>
          \<lparr>run_info = None, stdin = [], stdin_ended = False, killed = False,
           calls = [Reject (JString (lit ''Failed to launch java process.''))],
           console = []\<rparr>
      | Some Accepts \<Rightarrow>
          \<lparr>run_info = Some new_ParseInfo, stdin = [contents], stdin_ended = True,
           killed = False, calls = [], console = []\<rparr>
      | Some (WriteThrows ex) \<Rightarrow>
          \<lparr>run_info = Some new_ParseInfo, stdin = [], stdin_ended = False,
           killed = True, calls = [],
           console = [lit ''SQFLint: Failed to contact the sqflint. Ex: '' @ ex]\<rparr>
      | Some (EndThrows ex) \<Rightarrow>
          \<lparr>run_info = Some new_ParseInfo, stdin = [contents], stdin_ended = False,
           killed = True, calls = [],
           console = [lit ''SQFLint: Failed to contact the sqflint. Ex: '' @ ex]\<rparr>)"

text \<open>
  The events of the child: a chunk of output, the \<open>error\<close> event with its argument,
  and \<open>close\<close> with the exit code (\<open>null\<close>, here \<open>None\<close>, when a signal ended the
  child). The handlers exist only when the child was spawned.
\<close>

datatype event = Data jsstring | ErrorEvent jsval | Close "int option"

definition handle :: "platform \<Rightarrow> run \<Rightarrow> event \<Rightarrow> run" where
  "handle pf r ev =
     (case run_info r of
        None \<Rightarrow> r
      | Some info \<Rightarrow>
          (case ev of
             Data chunk \<Rightarrow>
               (let st = on_data pf (info, console r) chunk
                in r\<lparr>run_info := Some (fst st), console := snd st\<rparr>)
           | ErrorEvent msg \<Rightarrow>
               r\<lparr>console := console r @
                    [lit ''SQFLint: Failed to call sqflint. Do you have java installed?''],
                 calls := calls r @ [Reject msg]\<rparr>
           | Close code \<Rightarrow>
               r\<lparr>console :=
                    (if code \<noteq> Some 0
                     then console r @
                       [lit ''SQFLint: Failed to run sqflint. Do you have java installed?'']
                     else console r),
                 calls := calls r @ [Success]\<rparr>))"

definition run_events :: "platform \<Rightarrow> run \<Rightarrow> event list \<Rightarrow> run" where
  "run_events pf r evs = foldl (handle pf) r evs"

text \<open>
  The promise of a run is settled by the first call of a callback; it is resolved with
  the \<open>info\<close> object.
\<close>

datatype settled = Pending | Resolved ParseInfo | Rejected jsval

definition settlement :: "run \<Rightarrow> settled" where
  "settlement r =
     (case calls r of
        [] \<Rightarrow> Pending
      | Success # _ \<Rightarrow> (case run_info r of None \<Rightarrow> Pending | Some info \<Rightarrow> Resolved info)
      | Reject v # _ \<Rightarrow> Rejected v)"

section \<open>The debounced scheduler\<close>

text \<open>
  The instance with what its callbacks reach: the fields \<open>top\<close> (here \<open>top'\<close>) and
  \<open>timeout\<close>, the timers armed in the event loop, the promises created so far, the promises \<open>parse\<close>
  has rejected, and the runs started, each with the task that was handed to \<open>process\<close>.
  The \<open>n\<close>-th call of \<open>parse\<close> creates promise \<open>n\<close> and timer \<open>n\<close>; a task
  holds its two callbacks, here the number of their promise, and the contents.
\<close>

record SQFLint =
  top' :: "(nat \<times> jsstring) option"
  timeout :: "nat option"
  timers :: "nat set"
  promises :: nat
  rejected :: "nat list"
  runs :: "((nat \<times> jsstring) \<times> run) list"
  uncaught :: nat

definition new_SQFLint :: SQFLint where
  "new_SQFLint =
     \<lparr>top' = None, timeout = None, timers = {}, promises = 0, rejected = [], runs = [],
      uncaught = 0\<rparr>"

text \<open>
  \<open>runLint\<close> (lines 19 to 29), with the child that \<open>Java.spawn\<close> returns. Reading
  \<open>this.top.success\<close> when \<open>top\<close> is \<open>null\<close> is a TypeError that nothing catches.
\<close>

definition runLint :: "child option \<Rightarrow> SQFLint \<Rightarrow> SQFLint" where
  "runLint ch s =
     (let s1 = s\<lparr>timeout := None\<rparr>
      in case top' s1 of
           None \<Rightarrow> s1\<lparr>uncaught := uncaught s1 + 1\<rparr>
         | Some (p, contents) \<Rightarrow>
             s1\<lparr>runs := runs s1 @ [((p, contents), process ch contents)], top' := None\<rparr>)"

text \<open>\<open>parse\<close> (lines 131 to 151): the promise it returns and the new state.\<close>

definition parse :: "jsstring \<Rightarrow> SQFLint \<Rightarrow> nat \<times> SQFLint" where
  "parse contents s =
     (let s1 = (case timeout s of
                  None \<Rightarrow> s
                | Some t \<Rightarrow>
                    (let s' = s\<lparr>timers := timers s - {t}\<rparr>
                     in case top' s' of
                          None \<Rightarrow> s'
                        | Some (p, c) \<Rightarrow> s'\<lparr>rejected := rejected s' @ [p]\<rparr>));
          n = promises s1
      in (n, s1\<lparr>top' := Some (n, contents), timeout := Some n,
                timers := insert n (timers s1), promises := n + 1\<rparr>))"

text \<open>
  What happens to an instance: a call of \<open>parse\<close>, a timer that fires (only an armed
  one does, and it is then no longer armed), an event of the child of a run.
\<close>

datatype action = Parse jsstring | Fire nat "child option" | ChildEvent nat event

definition step :: "platform \<Rightarrow> SQFLint \<Rightarrow> action \<Rightarrow> SQFLint" where
  "step pf s a =
     (case a of
        Parse contents \<Rightarrow> snd (parse contents s)
      | Fire t ch \<Rightarrow>
          (if t \<in> timers s then runLint ch (s\<lparr>timers := timers s - {t}\<rparr>) else s)
      | ChildEvent i ev \<Rightarrow>
          (if i < length (runs s)
           then s\<lparr>runs := (runs s)[i := (fst (runs s ! i), handle pf (snd (runs s ! i)) ev)]\<rparr>
           else s))"

definition steps :: "platform \<Rightarrow> SQFLint \<Rightarrow> action list \<Rightarrow> SQFLint" where
  "steps pf s as = foldl (step pf) s as"

section \<open>Notions used by the statements\<close>

text \<open>The property \<open>k\<close> of a record, \<open>undefined\<close> when the record has none.\<close>

definition field :: "jsval \<Rightarrow> jsstring \<Rightarrow> jsval" where
  "field v k = (case get_prop v k of None \<Rightarrow> JUndefined | Some x \<Rightarrow> x)"

text \<open>
  The range and the entry (lines 67 to 70 and 72 to 75) of a record on which the
  conversion of the position does not raise.
\<close>

definition position_of :: "platform \<Rightarrow> jsval \<Rightarrow> Range option" where
  "position_of pf msg =
     (if truthy (field msg (lit ''line'')) \<and> truthy (field msg (lit ''column''))
      then parsePosition pf msg else None)"

definition diagnostic_of :: "platform \<Rightarrow> jsval \<Rightarrow> Message" where
  "diagnostic_of pf msg =
     new_Message (js_or (field msg (lit ''error'')) (field msg (lit ''message'')))
                 (position_of pf msg)"

text \<open>The text of the entry of an \<open>error\<close> or \<open>warning\<close> record.\<close>

definition text_of :: "jsval \<Rightarrow> jsval" where
  "text_of msg =
     (if truthy (field msg (lit ''error''))
      then field msg (lit ''error'') else field msg (lit ''message''))"

text \<open>
  A line on which the \<open>try\<close> block raises: it is not blank, and \<open>JSON.parse\<close> throws
  or the code after it does.
\<close>

definition raises :: "platform \<Rightarrow> jsstring \<Rightarrow> bool" where
  "raises pf ln \<longleftrightarrow>
     strip_newlines ln \<noteq> [] \<and>
     Option.bind (JSON_parse pf ln) (decode_message pf new_ParseInfo) = None"

definition parse_failure :: "jsstring \<Rightarrow> jsstring" where
  "parse_failure ln = lit ''Failed to parse response: >'' @ ln @ lit ''<''"

text \<open>
  The shape of a record as the interfaces \<open>RawMessagePosition\<close> and \<open>RawMessage\<close>
  declare it (lines 193 to 210), with every field but \<open>type\<close> allowed to be absent,
  as the handler treats them.
\<close>

definition is_string :: "jsval \<Rightarrow> bool" where
  "is_string v = (case v of JString s \<Rightarrow> True | _ \<Rightarrow> False)"

definition is_numbers :: "jsval \<Rightarrow> bool" where
  "is_numbers v =
     (case v of
        JArray xs \<Rightarrow> list_all (\<lambda>x. case x of JNumber n \<Rightarrow> True | _ \<Rightarrow> False) xs
      | _ \<Rightarrow> False)"

definition is_RawMessagePosition :: "jsval \<Rightarrow> bool" where
  "is_RawMessagePosition v =
     (case v of
        JObject kvs \<Rightarrow> is_numbers (field v (lit ''line'')) \<and> is_numbers (field v (lit ''column''))
      | _ \<Rightarrow> False)"

definition is_positions :: "jsval \<Rightarrow> bool" where
  "is_positions v =
     (case v of JArray xs \<Rightarrow> list_all is_RawMessagePosition xs | _ \<Rightarrow> False)"

definition absent_or :: "(jsval \<Rightarrow> bool) \<Rightarrow> jsval \<Rightarrow> bool" where
  "absent_or P v = (if v = JUndefined then True else P v)"

definition is_RawMessage :: "jsval \<Rightarrow> bool" where
  "is_RawMessage v =
     (case v of
        JObject kvs \<Rightarrow>
          is_string (field v (lit ''type'')) \<and>
          absent_or is_string (field v (lit ''error'')) \<and>
          absent_or is_string (field v (lit ''message'')) \<and>
          absent_or is_string (field v (lit ''variable'')) \<and>
          absent_or is_string (field v (lit ''comment'')) \<and>
          absent_or is_positions (field v (lit ''usage'')) \<and>
          absent_or is_positions (field v (lit ''definitions'')) \<and>
          absent_or is_numbers (field v (lit ''line'')) \<and>
          absent_or is_numbers (field v (lit ''column''))
      | _ \<Rightarrow> False)"

text \<open>
  A line that holds a valid record of the given type: it is not blank and \<open>JSON.parse\<close>
  returns an object of the shape above whose \<open>type\<close> is that string.
\<close>

definition record_line ::
  "platform \<Rightarrow> jsstring \<Rightarrow> jsstring \<Rightarrow> (jsstring \<times> jsval) list \<Rightarrow> bool" where
  "record_line pf ty ln kvs \<longleftrightarrow>
     strip_newlines ln \<noteq> [] \<and> JSON_parse pf ln = Some (JObject kvs) \<and>
     is_RawMessage (JObject kvs) \<and> map_of kvs (lit ''type'') = Some (JString ty)"

section \<open>Example output of the analyzer\<close>

definition line_bad_op :: jsstring where
  \<open>line_bad_op = lit ''{"type":"error","error":"bad op","line":[3,3],"column":[5,8]}''\<close>

definition line_missing :: jsstring where
  \<open>line_missing = lit ''{"type":"error","message":"missing ;"}''\<close>

definition line_not_json :: jsstring where
  \<open>line_not_json = lit ''Exception in thread main''\<close>

definition line_numeric_error :: jsstring where
  \<open>line_numeric_error = lit ''{"type":"error","error":5}''\<close>

definition line_empty_error :: jsstring where
  \<open>line_empty_error = lit ''{"type":"error","error":"","message":"fallback"}''\<close>

definition line_unused :: jsstring where
  \<open>line_unused = lit ''{"type":"warning","message":"unused"}''\<close>

definition line_variable :: jsstring where
  \<open>line_variable =
     lit ''{"type":"variable","variable":"_x","comment":"// note","usage":[{"line":[1,1],"column":[1,2]}]}''\<close>

definition line_declared :: jsstring where
  \<open>line_declared =
     lit ''{"type":"variable","variable":"_x","comment":"// note","definitions":[{"line":[1,1],"column":[1,2]}],"usage":[]}''\<close>

definition line_unconvertible :: jsstring where
  \<open>line_unconvertible =
     lit ''{"type":"error","error":"e","line":[{"toString":1},1],"column":[1,1]}''\<close>

definition record_bad_op :: "(jsstring \<times> jsval) list" where
  "record_bad_op =
     [(lit ''type'', JString (lit ''error'')),
      (lit ''error'', JString (lit ''bad op'')),
      (lit ''line'', JArray [JNumber (Num 3), JNumber (Num 3)]),
      (lit ''column'', JArray [JNumber (Num 5), JNumber (Num 8)])]"

definition record_missing :: "(jsstring \<times> jsval) list" where
  "record_missing =
     [(lit ''type'', JString (lit ''error'')),
      (lit ''message'', JString (lit ''missing ;''))]"

definition record_numeric_error :: "(jsstring \<times> jsval) list" where
  "record_numeric_error =
     [(lit ''type'', JString (lit ''error'')),
      (lit ''error'', JNumber (Num 5))]"

definition record_empty_error :: "(jsstring \<times> jsval) list" where
  "record_empty_error =
     [(lit ''type'', JString (lit ''error'')),
      (lit ''error'', JString []),
      (lit ''message'', JString (lit ''fallback''))]"

definition record_unused :: "(jsstring \<times> jsval) list" where
  "record_unused =
     [(lit ''type'', JString (lit ''warning'')),
      (lit ''message'', JString (lit ''unused''))]"

definition record_variable :: "(jsstring \<times> jsval) list" where
  "record_variable =
     [(lit ''type'', JString (lit ''variable'')),
      (lit ''variable'', JString (lit ''_x'')),
      (lit ''comment'', JString (lit ''// note'')),
      (lit ''usage'',
         JArray [JObject [(lit ''line'', JArray [JNumber (Num 1), JNumber (Num 1)]),
                          (lit ''column'', JArray [JNumber (Num 1), JNumber (Num 2)])]])]"

definition record_declared :: "(jsstring \<times> jsval) list" where
  "record_declared =
     [(lit ''type'', JString (lit ''variable'')),
      (lit ''variable'', JString (lit ''_x'')),
      (lit ''comment'', JString (lit ''// note'')),
      (lit ''definitions'',
         JArray [JObject [(lit ''line'', JArray [JNumber (Num 1), JNumber (Num 1)]),
                          (lit ''column'', JArray [JNumber (Num 1), JNumber (Num 2)])]]),
      (lit ''usage'', JArray [])]"

definition record_unconvertible :: "(jsstring \<times> jsval) list" where
  "record_unconvertible =
     [(lit ''type'', JString (lit ''error'')),
      (lit ''error'', JString (lit ''e'')),
      (lit ''line'', JArray [JObject [(lit ''toString'', JNumber (Num 1))], JNumber (Num 1)]),
      (lit ''column'', JArray [JNumber (Num 1), JNumber (Num 1)])]"

text \<open>
  A platform for the examples: \<open>JSON.parse\<close> on the lines above (every other line is
  taken not to be JSON); the examples convert no string to a number and no number to
  a string.
\<close>

definition example_parse :: "jsstring \<Rightarrow> jsval option" where
  "example_parse ln =
     (if ln = line_bad_op then Some (JObject record_bad_op)
      else if ln = line_missing then Some (JObject record_missing)
      else if ln = line_numeric_error then Some (JObject record_numeric_error)
      else if ln = line_empty_error then Some (JObject record_empty_error)
      else if ln = line_unused then Some (JObject record_unused)
      else if ln = line_variable then Some (JObject record_variable)
      else if ln = line_declared then Some (JObject record_declared)
      else if ln = line_unconvertible then Some (JObject record_unconvertible)
      else None)"

definition example_platform :: platform where
  "example_platform =
     \<lparr>JSON_parse = example_parse, StringToNumber = (\<lambda>s. NaN), NumberToString = (\<lambda>n. [])\<rparr>"

text \<open>A raw position whose end line is before its start line.\<close>

definition reversed_position :: jsval where
  "reversed_position =
     JObject [(lit ''line'', JArray [JNumber (Num 5), JNumber (Num 3)]),
              (lit ''column'', JArray [JNumber (Num 1), JNumber (Num 1)])]"

text \<open>A raw position whose lines are \<open>2 ^ 53 + 2\<close>.\<close>

definition distant_position :: jsval where
  "distant_position =
     JObject [(lit ''line'', JArray [JNumber (Num 9007199254740994), JNumber (Num 9007199254740994)]),
              (lit ''column'', JArray [JNumber (Num 1), JNumber (Num 1)])]"

section \<open>Invariants of the scheduler\<close>

text \<open>Every promise and timer of the state has been created by a call of \<open>parse\<close>.\<close>

definition ids_allocated :: "SQFLint \<Rightarrow> bool" where
  "ids_allocated s \<longleftrightarrow>
     (\<forall>t\<in>timers s. t < promises s) \<and>
     (\<forall>p c. top' s = Some (p, c) \<longrightarrow> p < promises s) \<and>
     (\<forall>e\<in>set (runs s). fst (fst e) < promises s)"

text \<open>
  A run does not belong to promise \<open>p1\<close>, and if it belongs to promise \<open>p2\<close> it was
  handed the contents \<open>c2\<close> and has written nothing else to its child.
\<close>

definition run_of_second :: "nat \<Rightarrow> nat \<Rightarrow> jsstring \<Rightarrow> (nat \<times> jsstring) \<times> run \<Rightarrow> bool" where
  "run_of_second p1 p2 c2 e \<longleftrightarrow>
     fst (fst e) \<noteq> p1 \<and>
     (fst (fst e) = p2 \<longrightarrow> snd (fst e) = c2 \<and> set (stdin (snd e)) \<subseteq> {c2})"

text \<open>
  The state after a call \<open>p1\<close> was superseded by a call \<open>p2\<close> with contents \<open>c2\<close>: the
  timer of \<open>p1\<close> is not armed, \<open>p1\<close> is not the pending task and has no run.
\<close>

definition only_second :: "nat \<Rightarrow> nat \<Rightarrow> jsstring \<Rightarrow> SQFLint \<Rightarrow> bool" where
  "only_second p1 p2 c2 s \<longleftrightarrow>
     p1 < p2 \<and> p2 < promises s \<and> p1 \<notin> timers s \<and>
     (\<forall>p c. top' s = Some (p, c) \<longrightarrow> p \<noteq> p1 \<and> (p = p2 \<longrightarrow> c = c2)) \<and>
     (\<forall>e\<in>set (runs s). run_of_second p1 p2 c2 e)"

text \<open>
  An armed timer is the one \<open>timeout\<close> holds, and the pending task is the task of that
  call of \<open>parse\<close>: at most one timer is armed.
\<close>

definition armed_is_pending :: "SQFLint \<Rightarrow> bool" where
  "armed_is_pending s \<longleftrightarrow>
     (\<forall>t\<in>timers s. timeout s = Some t \<and> (\<exists>c. top' s = Some (t, c)))"

text \<open>
  While the timer of the call \<open>p1\<close> with contents \<open>c1\<close> is armed, its task is the pending
  one and has no run.
\<close>

definition first_pending :: "nat \<Rightarrow> jsstring \<Rightarrow> SQFLint \<Rightarrow> bool" where
  "first_pending p1 c1 s \<longleftrightarrow>
     p1 < promises s \<and>
     (p1 \<in> timers s \<longrightarrow>
        top' s = Some (p1, c1) \<and> (\<forall>e\<in>set (runs s). fst (fst e) \<noteq> p1))"

text \<open>Two calls of \<open>parse\<close> on a new instance, with no timer fired in between.\<close>

definition two_calls :: SQFLint where
  "two_calls = snd (parse (lit ''b = 2;'') (snd (parse (lit ''a = 1;'') new_SQFLint)))"

declare key_of_nat.simps [simp del]

declare shift_of.simps [simp del]

section \<open>Properties of the comment normalizer\<close>

lemma indexOf_0: "indexOf s p = 0 \<longleftrightarrow> prefix p s"
  by (cases s) (auto simp: Let_def)

lemma dropWhile_self: "t \<noteq> [] \<Longrightarrow> \<not> P (hd t) \<Longrightarrow> dropWhile P t = t"
  by (cases t) auto

lemma hd_trim: 
  assumes "trim s \<noteq> []"
  shows "\<not> is_space (hd (trim s))"
proof -
  let ?u = "dropWhile is_space s"
  have "trim s @ rev (takeWhile is_space (rev ?u)) =
        rev (takeWhile is_space (rev ?u) @ dropWhile is_space (rev ?u))"
    by (simp only: trim_def rev_append)
  then have split: "?u = trim s @ rev (takeWhile is_space (rev ?u))"
    by simp
  with assms have "hd ?u = hd (trim s)" and "?u \<noteq> []"
    by (metis hd_append2, metis append_is_Nil_conv)
  then show ?thesis
    using hd_dropWhile [of is_space s] by simp
qed

lemma last_trim:
  assumes "trim s \<noteq> []"
  shows "\<not> is_space (last (trim s))"
proof -
  let ?d = "dropWhile is_space (rev (dropWhile is_space s))"
  from assms have "?d \<noteq> []" by (simp add: trim_def)
  then have "\<not> is_space (hd ?d)" by (rule hd_dropWhile)
  moreover have "last (trim s) = hd ?d"
    using \<open>?d \<noteq> []\<close> by (simp add: trim_def last_rev)
  ultimately show ?thesis by simp
qed

lemma trim_Nil: "trim [] = []"
  by (simp add: trim_def)

lemma trim_idem: "trim (trim s) = trim s"
proof (cases "trim s = []")
  case True
  then show ?thesis by (simp add: trim_Nil)
next
  case False
  then have a: "dropWhile is_space (trim s) = trim s"
    by (simp add: dropWhile_self hd_trim)
  from False have "rev (trim s) \<noteq> []" and "\<not> is_space (hd (rev (trim s)))"
    by (simp_all add: hd_rev last_trim)
  then have b: "dropWhile is_space (rev (trim s)) = rev (trim s)"
    by (rule dropWhile_self)
  have "trim (trim s) = rev (dropWhile is_space (rev (dropWhile is_space (trim s))))"
    by (simp add: trim_def)
  also have "\<dots> = trim s" by (simp add: a b)
  finally show ?thesis .
qed

lemma parseComment_trimmed: "trim (parseComment c) = parseComment c"
  by (simp add: parseComment_def Let_def trim_idem trim_Nil)

text \<open>
  Claim C7, as amended: normalizing is idempotent on every comment whose normal form
  does not itself begin with the line marker \<open>//\<close> or the block marker \<open>/*\<close>.
\<close>

theorem parseComment_idempotent_without_marker:
  assumes "\<not> prefix (lit ''//'') (parseComment c)"
    and "\<not> prefix (lit ''/*'') (parseComment c)"
  shows "parseComment (parseComment c) = parseComment c"
proof (cases "parseComment c = []")
  case True
  then show ?thesis by (simp add: parseComment_def)
next
  case False
  have "parseComment (parseComment c) =
        (let c1 = trim (parseComment c);
            c2 = (if indexOf c1 (lit ''//'') = 0 then trim (substr_from c1 2) else c1)
        in if indexOf c2 (lit ''/*'') = 0
           then
             (let clines = split_str (trim (substr c2 2 (int (length c2) - 4))) 0x0A;
                  clines' = map clean_cline clines
              in trim (join (filter (\<lambda>i. i \<noteq> []) clines') (lit [CHR 0x0D, CHR 0x0A])))
           else c2)"
    using False by (subst parseComment_def) simp
  then show ?thesis
    using assms by (simp add: parseComment_trimmed indexOf_0 Let_def)
qed

theorem parseComment_idempotent_without_marker_witness:
  "\<not> prefix (lit ''//'') (parseComment (lit ''/* a note */'')) \<and>
   \<not> prefix (lit ''/*'') (parseComment (lit ''/* a note */'')) \<and>
   parseComment (lit ''/* a note */'') = lit ''a note'' \<and>
   parseComment (parseComment (lit ''/* a note */'')) = parseComment (lit ''/* a note */'')"
proof -
  have r: "parseComment (lit ''/* a note */'') = lit ''a note''"
    by code_simp
  have a: "\<not> prefix (lit ''//'') (parseComment (lit ''/* a note */''))"
    unfolding r by (simp add: lit_def)
  have b: "\<not> prefix (lit ''/*'') (parseComment (lit ''/* a note */''))"
    unfolding r by (simp add: lit_def)
  show ?thesis
    using a b r parseComment_idempotent_without_marker [OF a b] by simp
qed

text \<open>
  Claim C7 as stated fails: a line comment whose text is again a line comment loses one
  marker at each call.
\<close>

theorem parseComment_not_idempotent:
  "parseComment (lit ''// // foo'') = lit ''// foo'' \<and>
   parseComment (parseComment (lit ''// // foo'')) = lit ''foo'' \<and>
   parseComment (parseComment (lit ''// // foo'')) \<noteq> parseComment (lit ''// // foo'')"
  by code_simp


section \<open>Properties of the position mapper\<close>

lemma round_double_exact: "\<bar>y\<bar> \<le> 2 ^ 53 \<Longrightarrow> round_double y = y"
  by (simp add: round_double_def)

lemma minus_one_Num:
  "minus_one pf (JNumber (Num n)) = Some (JNumber (Num (round_double (n - 1))))"
  by (simp add: minus_one_def ToNumber_def)

lemma parsePosition_numbers:
  assumes "get_prop position (lit ''line'') = Some (JArray [JNumber (Num L1), JNumber (Num L2)])"
    and "get_prop position (lit ''column'') = Some (JArray [JNumber (Num C1), JNumber (Num C2)])"
  shows "parsePosition pf position =
           Some (new_Range (new_Position (JNumber (Num (round_double (L1 - 1))))
                                         (JNumber (Num (round_double (C1 - 1)))))
                           (new_Position (JNumber (Num (round_double (L2 - 1))))
                                         (JNumber (Num C2))))"
  using assms by (simp add: parsePosition_def minus_one_Num)

lemma parsePosition_exact:
  assumes "get_prop position (lit ''line'') = Some (JArray [JNumber (Num L1), JNumber (Num L2)])"
    and "get_prop position (lit ''column'') = Some (JArray [JNumber (Num C1), JNumber (Num C2)])"
    and "\<bar>L1\<bar> < 2 ^ 53" and "\<bar>L2\<bar> < 2 ^ 53" and "\<bar>C1\<bar> < 2 ^ 53"
  shows "parsePosition pf position =
           Some (new_Range (new_Position (JNumber (Num (L1 - 1))) (JNumber (Num (C1 - 1))))
                           (new_Position (JNumber (Num (L2 - 1))) (JNumber (Num C2))))"
proof -
  have "round_double (L1 - 1) = L1 - 1" "round_double (L2 - 1) = L2 - 1"
    "round_double (C1 - 1) = C1 - 1"
    using assms(3-5) by (simp_all add: round_double_exact)
  then show ?thesis
    using parsePosition_numbers [OF assms(1,2), of pf] by simp
qed

text \<open>
  Claim C2, as amended: a raw position with \<open>line: [L1, L2]\<close> and \<open>column: [C1, C2]\<close>,
  where \<open>L1\<close>, \<open>L2\<close> and \<open>C1\<close> are integers below \<open>2 ^ 53\<close> in magnitude, is mapped to
  the range from \<open>(L1 - 1, C1 - 1)\<close> to \<open>(L2 - 1, C2)\<close>: the end line is decremented and
  the end character is not.
\<close>

theorem parsePosition_range:
  assumes "get_prop position (lit ''line'') = Some (JArray [JNumber (Num L1), JNumber (Num L2)])"
    and "get_prop position (lit ''column'') = Some (JArray [JNumber (Num C1), JNumber (Num C2)])"
    and "\<bar>L1\<bar> < 2 ^ 53" and "\<bar>L2\<bar> < 2 ^ 53" and "\<bar>C1\<bar> < 2 ^ 53"
  shows "parsePosition pf position =
           Some (new_Range (new_Position (JNumber (Num (L1 - 1))) (JNumber (Num (C1 - 1))))
                           (new_Position (JNumber (Num (L2 - 1))) (JNumber (Num C2))))"
  using assms by (rule parsePosition_exact)

lemma get_prop_bad_op:
  "get_prop (JObject record_bad_op) (lit ''line'') = Some (JArray [JNumber (Num 3), JNumber (Num 3)])"
  "get_prop (JObject record_bad_op) (lit ''column'') = Some (JArray [JNumber (Num 5), JNumber (Num 8)])"
  by (simp_all add: record_bad_op_def lit_def)

theorem parsePosition_range_witness:
  "\<bar>3::int\<bar> < 2 ^ 53 \<and> \<bar>5::int\<bar> < 2 ^ 53 \<and>
   parsePosition example_platform (JObject record_bad_op) =
     Some (new_Range (new_Position (JNumber (Num 2)) (JNumber (Num 4)))
                     (new_Position (JNumber (Num 2)) (JNumber (Num 8))))"
proof -
  have b: "\<bar>3::int\<bar> < 2 ^ 53" "\<bar>5::int\<bar> < 2 ^ 53"
    by simp_all
  show ?thesis
    using b parsePosition_range [OF get_prop_bad_op b(1) b(1) b(2), of example_platform]
    by simp
qed

text \<open>
  Claim C2 as stated fails beyond \<open>2 ^ 53\<close>, where a double holds the even integers
  only: the line \<open>2 ^ 53 + 2\<close> is mapped to \<open>2 ^ 53\<close>, not to \<open>2 ^ 53 + 1\<close>.
\<close>

theorem distant_line_rounded:
  "parsePosition example_platform distant_position =
     Some (new_Range (new_Position (JNumber (Num 9007199254740992)) (JNumber (Num 0)))
                     (new_Position (JNumber (Num 9007199254740992)) (JNumber (Num 1)))) \<and>
   (9007199254740994 :: int) - 1 \<noteq> 9007199254740992"
proof -
  have "shift_of 9007199254740993 = 1"
    by (simp add: shift_of.simps)
  then have "round_double (9007199254740994 - 1) = 9007199254740992"
    by (simp add: round_double_def Let_def)
  then show ?thesis
    by (simp add: distant_position_def parsePosition_def minus_one_Num round_double_exact
        lit_def)
qed

text \<open>
  Claim C9 as stated fails: the mapper checks nothing, and a raw position whose lines
  are \<open>[5, 3]\<close> gives a range that starts after its end.
\<close>

theorem range_not_ordered:
  "parsePosition example_platform reversed_position =
     Some (new_Range (new_Position (JNumber (Num 4)) (JNumber (Num 0)))
                     (new_Position (JNumber (Num 2)) (JNumber (Num 1)))) \<and>
   \<not> range_ordered (new_Range (new_Position (JNumber (Num 4)) (JNumber (Num 0)))
                               (new_Position (JNumber (Num 2)) (JNumber (Num 1))))"
  by (simp add: reversed_position_def parsePosition_def minus_one_Num round_double_exact
      range_ordered_def lit_def)

text \<open>
  Claim C9, as amended: the mapper checks nothing; for a raw position with
  \<open>line: [L1, L2]\<close> and \<open>column: [C1, C2]\<close>, where \<open>L1\<close>, \<open>L2\<close> and \<open>C1\<close> are integers
  below \<open>2 ^ 53\<close> in magnitude, the range has \<open>start \<le> end\<close> in line-then-character
  order exactly when \<open>L1 < L2\<close>, or \<open>L1 = L2\<close> and \<open>C1 - 1 \<le> C2\<close>.
\<close>

theorem range_ordered_iff_raw_ordered:
  assumes "get_prop position (lit ''line'') = Some (JArray [JNumber (Num L1), JNumber (Num L2)])"
    and "get_prop position (lit ''column'') = Some (JArray [JNumber (Num C1), JNumber (Num C2)])"
    and "\<bar>L1\<bar> < 2 ^ 53" and "\<bar>L2\<bar> < 2 ^ 53" and "\<bar>C1\<bar> < 2 ^ 53"
  shows "\<exists>r. parsePosition pf position = Some r \<and>
             (range_ordered r \<longleftrightarrow> L1 < L2 \<or> (L1 = L2 \<and> C1 - 1 \<le> C2))"
  using parsePosition_exact [OF assms, of pf] by (auto simp: range_ordered_def)

theorem range_ordered_iff_raw_ordered_witness:
  "\<bar>3::int\<bar> < 2 ^ 53 \<and> \<bar>5::int\<bar> < 2 ^ 53 \<and>
   (\<exists>r. parsePosition example_platform (JObject record_bad_op) = Some r \<and>
       (range_ordered r \<longleftrightarrow> (3::int) < 3 \<or> ((3::int) = 3 \<and> (5::int) - 1 \<le> 8)))"
proof -
  have b: "\<bar>3::int\<bar> < 2 ^ 53" "\<bar>5::int\<bar> < 2 ^ 53"
    by simp_all
  show ?thesis
    using b range_ordered_iff_raw_ordered [OF get_prop_bad_op b(1) b(1) b(2), of example_platform]
    by simp
qed


section \<open>Properties of the stream decoder\<close>

lemma get_prop_field: "get_prop (JObject kvs) k = Some (field (JObject kvs) k)"
  by (simp add: field_def)

lemma loose_eq_JString: "loose_eq pf (JString t) s = Some (t = s)"
  by (simp add: loose_eq_def)

lemma get_index_numbers:
  assumes "is_numbers v"
  shows "\<exists>x. get_index v i = Some x \<and> (x = JUndefined \<or> (\<exists>n. x = JNumber n))"
proof -
  from assms obtain xs where v: "v = JArray xs"
    and all: "list_all (\<lambda>x. case x of JNumber n \<Rightarrow> True | _ \<Rightarrow> False) xs"
    by (auto simp: is_numbers_def split: jsval.splits)
  show ?thesis
  proof (cases "i < length xs")
    case True
    with all have "case xs ! i of JNumber n \<Rightarrow> True | _ \<Rightarrow> False"
      by (simp add: list_all_length)
    then have "\<exists>n. xs ! i = JNumber n"
      by (cases "xs ! i") simp_all
    with True v show ?thesis by simp
  next
    case False
    with v show ?thesis by simp
  qed
qed

lemma minus_one_number:
  assumes "x = JUndefined \<or> (\<exists>n. x = JNumber n)"
  shows "\<exists>y. minus_one pf x = Some y"
  using assms by (auto simp: minus_one_def ToNumber_def)

lemma parsePosition_RawMessagePosition:
  assumes "is_numbers (field (JObject kvs) (lit ''line''))"
    and "is_numbers (field (JObject kvs) (lit ''column''))"
  shows "\<exists>r. parsePosition pf (JObject kvs) = Some r"
proof -
  let ?l = "field (JObject kvs) (lit ''line'')"
  let ?c = "field (JObject kvs) (lit ''column'')"
  obtain l0 where l0: "get_index ?l 0 = Some l0" "l0 = JUndefined \<or> (\<exists>n. l0 = JNumber n)"
    using get_index_numbers [OF assms(1)] by blast
  obtain l1 where l1: "get_index ?l 1 = Some l1" "l1 = JUndefined \<or> (\<exists>n. l1 = JNumber n)"
    using get_index_numbers [OF assms(1)] by blast
  obtain c0 where c0: "get_index ?c 0 = Some c0" "c0 = JUndefined \<or> (\<exists>n. c0 = JNumber n)"
    using get_index_numbers [OF assms(2)] by blast
  obtain c1 where c1: "get_index ?c 1 = Some c1"
    using get_index_numbers [OF assms(2)] by blast
  obtain a where a: "minus_one pf l0 = Some a"
    using minus_one_number [OF l0(2)] by blast
  obtain b where b: "minus_one pf c0 = Some b"
    using minus_one_number [OF c0(2)] by blast
  obtain c where c: "minus_one pf l1 = Some c"
    using minus_one_number [OF l1(2)] by blast
  show ?thesis
    using l0(1) l1(1) c0(1) c1 a b c
    unfolding parsePosition_def get_prop_field by simp
qed

lemma is_numbers_truthy: "truthy v \<Longrightarrow> absent_or is_numbers v \<Longrightarrow> is_numbers v"
  by (cases v) (simp_all add: absent_or_def)

lemma preload_position_valid:
  assumes "absent_or is_numbers (field (JObject kvs) (lit ''line''))"
    and "absent_or is_numbers (field (JObject kvs) (lit ''column''))"
  shows "preload_position pf (JObject kvs) = Some (position_of pf (JObject kvs))"
proof (cases "truthy (field (JObject kvs) (lit ''line'')) \<and>
              truthy (field (JObject kvs) (lit ''column''))")
  case True
  with assms obtain r where "parsePosition pf (JObject kvs) = Some r"
    using parsePosition_RawMessagePosition is_numbers_truthy by blast
  with True show ?thesis
    unfolding preload_position_def get_prop_field by (simp add: position_of_def)
next
  case False
  then show ?thesis
    unfolding preload_position_def get_prop_field by (auto simp: position_of_def)
qed

lemma decode_message_object:
  "decode_message pf info (JObject kvs) =
     do {
       position \<leftarrow> preload_position pf (JObject kvs);
       is_error \<leftarrow> loose_eq pf (field (JObject kvs) (lit ''type'')) (lit ''error'');
       if is_error then
         Some (info\<lparr>errors := errors info @ [new_Message (text_of (JObject kvs)) position]\<rparr>)
       else
         do {
           is_warning \<leftarrow> loose_eq pf (field (JObject kvs) (lit ''type'')) (lit ''warning'');
           if is_warning then
             Some (info\<lparr>warnings := warnings info @
                     [new_Message (text_of (JObject kvs)) position]\<rparr>)
           else
             do {
               is_variable \<leftarrow> loose_eq pf (field (JObject kvs) (lit ''type'')) (lit ''variable'');
               if is_variable then
                 do {
                   cm \<leftarrow> comment_of (field (JObject kvs) (lit ''comment''));
                   ds \<leftarrow> those (map (parsePosition pf)
                           (for_in (field (JObject kvs) (lit ''definitions''))));
                   us \<leftarrow> those (map (parsePosition pf)
                           (for_in (field (JObject kvs) (lit ''usage''))));
                   Some (info\<lparr>variables := variables info @
                           [\<lparr>name = field (JObject kvs) (lit ''variable''), comment = cm,
                             definitions = ds, usage = us\<rparr>]\<rparr>)
                 }
               else Some info
             }
         }
     }"
  unfolding decode_message_def get_prop_field
  by (simp add: text_of_def js_or_def cong: if_cong)

lemma decode_message_not_object:
  "\<forall>kvs. msg \<noteq> JObject kvs \<Longrightarrow>
   decode_message pf info msg = (if msg = JUndefined \<or> msg = JNull then None else Some info)"
  by (cases msg) (simp_all add: decode_message_def preload_position_def loose_eq_def)

lemma decode_message_None_iff:
  "decode_message pf info msg = None \<longleftrightarrow> decode_message pf info' msg = None"
proof (cases "\<exists>kvs. msg = JObject kvs")
  case True
  then obtain kvs where "msg = JObject kvs" ..
  then show ?thesis
    by (simp add: decode_message_object split: Option.bind_split)
next
  case False
  then show ?thesis by (simp add: decode_message_not_object)
qed


lemma decode_message_record:
  assumes "is_RawMessage (JObject kvs)"
    and "map_of kvs (lit ''type'') = Some (JString (lit ''error''))"
  shows "decode_message pf info (JObject kvs) =
           Some (info\<lparr>errors := errors info @ [diagnostic_of pf (JObject kvs)]\<rparr>)"
proof -
  from assms(1) have "absent_or is_numbers (field (JObject kvs) (lit ''line''))"
    and "absent_or is_numbers (field (JObject kvs) (lit ''column''))"
    by (simp_all add: is_RawMessage_def)
  then have "preload_position pf (JObject kvs) = Some (position_of pf (JObject kvs))"
    by (rule preload_position_valid)
  moreover have "field (JObject kvs) (lit ''type'') = JString (lit ''error'')"
    using assms(2) by (simp add: field_def)
  ultimately show ?thesis
    by (simp add: decode_message_object loose_eq_JString diagnostic_of_def text_of_def
        js_or_def)
qed

lemma decode_line_record:
  assumes "record_line pf (lit ''error'') ln kvs"
  shows "decode_line pf (info, con) ln =
           (info\<lparr>errors := errors info @ [diagnostic_of pf (JObject kvs)]\<rparr>, con)"
  using assms
  by (simp add: record_line_def decode_line_def decode_message_record)


lemma decode_line_raises:
  assumes "raises pf ln"
  shows "decode_line pf (info, con) ln = (info, con @ [parse_failure ln])"
proof -
  have "Option.bind (JSON_parse pf ln) (decode_message pf info) = None"
    using assms decode_message_None_iff [of pf info _ new_ParseInfo]
    by (cases "JSON_parse pf ln") (simp_all add: raises_def)
  then show ?thesis
    using assms by (simp add: decode_line_def parse_failure_def raises_def)
qed







lemma split_str_line: "sep \<notin> set l \<Longrightarrow> split_str l sep = [l]"
  by (induction l) auto

lemma split_str_append: "sep \<notin> set l \<Longrightarrow> split_str (l @ sep # r) sep = l # split_str r sep"
  by (induction l) auto

text \<open>
  Claim C8, as amended: a record of type \<open>error\<close> or \<open>warning\<close> either raises while its
  position is converted, and then nothing is appended, or appends one diagnostic whose
  text is the \<open>error\<close> field when that field is truthy, and the \<open>message\<close> field
  otherwise, that is when the \<open>error\<close> field is absent, empty, \<open>null\<close>, \<open>0\<close> or \<open>false\<close>.
\<close>

theorem diagnostic_text:
  assumes "map_of kvs (lit ''type'') = Some (JString ty)"
    and "ty = lit ''error'' \<or> ty = lit ''warning''"
  shows "decode_message pf info (JObject kvs) =
           map_option
             (\<lambda>position.
                if ty = lit ''error''
                then info\<lparr>errors := errors info @
                       [new_Message
                          (if truthy (field (JObject kvs) (lit ''error''))
                           then field (JObject kvs) (lit ''error'')
                           else field (JObject kvs) (lit ''message''))
                          position]\<rparr>
                else info\<lparr>warnings := warnings info @
                       [new_Message
                          (if truthy (field (JObject kvs) (lit ''error''))
                           then field (JObject kvs) (lit ''error'')
                           else field (JObject kvs) (lit ''message''))
                          position]\<rparr>)
             (preload_position pf (JObject kvs))"
proof -
  have t: "field (JObject kvs) (lit ''type'') = JString ty"
    using assms(1) by (simp add: field_def)
  have "lit ''warning'' \<noteq> lit ''error''" by (simp add: lit_def)
  with assms(2) show ?thesis
    by (cases "preload_position pf (JObject kvs)")
       (auto simp: decode_message_object t loose_eq_JString text_of_def)
qed


lemma example_parse_simps:
  "example_parse line_bad_op = Some (JObject record_bad_op)"
  "example_parse line_missing = Some (JObject record_missing)"
  "example_parse line_numeric_error = Some (JObject record_numeric_error)"
  "example_parse line_empty_error = Some (JObject record_empty_error)"
  "example_parse line_unused = Some (JObject record_unused)"
  "example_parse line_variable = Some (JObject record_variable)"
  "example_parse line_declared = Some (JObject record_declared)"
  "example_parse line_unconvertible = Some (JObject record_unconvertible)"
  "example_parse line_not_json = None"
  by (simp_all add: example_parse_def line_bad_op_def line_missing_def line_numeric_error_def
      line_empty_error_def line_unused_def line_variable_def line_declared_def
      line_unconvertible_def line_not_json_def lit_def)

lemma example_JSON_parse: "JSON_parse example_platform = example_parse"
  by (simp add: example_platform_def)

lemma preload_position_absent:
  assumes "map_of kvs (lit ''line'') = None"
  shows "preload_position pf (JObject kvs) = Some None"
  using assms by (simp add: preload_position_def)

theorem diagnostic_text_witness:
  "decode_message example_platform new_ParseInfo (JObject record_unused) =
     Some (new_ParseInfo\<lparr>warnings := [new_Message (JString (lit ''unused'')) None]\<rparr>)"
proof -
  have t: "map_of record_unused (lit ''type'') = Some (JString (lit ''warning''))"
    by (simp add: record_unused_def lit_def)
  have w: "lit ''warning'' = lit ''error'' \<or> lit ''warning'' = lit ''warning''"
    by simp
  have n: "lit ''warning'' \<noteq> lit ''error''"
    by (simp add: lit_def)
  have f: "field (JObject record_unused) (lit ''error'') = JUndefined"
    "field (JObject record_unused) (lit ''message'') = JString (lit ''unused'')"
    by (simp_all add: field_def record_unused_def lit_def)
  have p: "preload_position example_platform (JObject record_unused) = Some None"
    by (rule preload_position_absent) (simp add: record_unused_def lit_def)
  show ?thesis
    using diagnostic_text [OF t w, of example_platform new_ParseInfo]
    by (simp add: n f p new_ParseInfo_def)
qed

text \<open>
  Claim C8 as stated fails: an \<open>error\<close> field that is present and empty is not used,
  the text is the \<open>message\<close> field.
\<close>

theorem empty_error_field_not_used:
  "JSON_parse example_platform line_empty_error = Some (JObject record_empty_error) \<and>
   map_of record_empty_error (lit ''error'') = Some (JString []) \<and>
   on_data example_platform (new_ParseInfo, []) line_empty_error =
     (\<lparr>errors = [new_Message (JString (lit ''fallback'')) None], warnings = [], variables = []\<rparr>, [])"
proof -
  have a: "JSON_parse example_platform line_empty_error = Some (JObject record_empty_error)"
    by (simp add: example_JSON_parse example_parse_simps)
  have b: "map_of record_empty_error (lit ''error'') = Some (JString [])"
    by (simp add: record_empty_error_def lit_def)
  have nl: "0x0A \<notin> set line_empty_error" and nb: "strip_newlines line_empty_error \<noteq> []"
    by (simp_all add: line_empty_error_def lit_def strip_newlines_def)
  have p: "preload_position example_platform (JObject record_empty_error) = Some None"
    by (rule preload_position_absent) (simp add: record_empty_error_def lit_def)
  have f: "field (JObject record_empty_error) (lit ''type'') = JString (lit ''error'')"
    "field (JObject record_empty_error) (lit ''error'') = JString []"
    "field (JObject record_empty_error) (lit ''message'') = JString (lit ''fallback'')"
    by (simp_all add: field_def record_empty_error_def lit_def)
  have d: "decode_message example_platform new_ParseInfo (JObject record_empty_error) =
      Some \<lparr>errors = [new_Message (JString (lit ''fallback'')) None], warnings = [], variables = []\<rparr>"
    by (simp add: decode_message_object p f loose_eq_JString text_of_def new_ParseInfo_def)
  show ?thesis
    using a b d nl nb by (simp add: on_data_def split_str_line decode_line_def)
qed



lemma example_lines:
  "0x0A \<notin> set line_bad_op" "0x0A \<notin> set line_missing" "0x0A \<notin> set line_not_json"
  "0x0A \<notin> set line_numeric_error" "0x0A \<notin> set line_unused" "0x0A \<notin> set line_variable"
  "strip_newlines line_bad_op \<noteq> []" "strip_newlines line_missing \<noteq> []"
  "strip_newlines line_not_json \<noteq> []" "strip_newlines line_numeric_error \<noteq> []"
  "strip_newlines line_unused \<noteq> []" "strip_newlines line_variable \<noteq> []"
  "0x0A \<notin> set line_declared" "strip_newlines line_declared \<noteq> []"
  "0x0A \<notin> set line_unconvertible" "strip_newlines line_unconvertible \<noteq> []"
  by (simp_all add: line_bad_op_def line_missing_def line_numeric_error_def
      line_unused_def line_variable_def line_not_json_def line_declared_def
      line_unconvertible_def lit_def strip_newlines_def)

lemma example_valid:
  "is_RawMessage (JObject record_bad_op)"
  "is_RawMessage (JObject record_missing)"
  "is_RawMessage (JObject record_unused)"
  "is_RawMessage (JObject record_variable)"
  "is_RawMessage (JObject record_declared)"
  by (simp_all add: is_RawMessage_def field_def absent_or_def is_string_def is_positions_def
      is_RawMessagePosition_def is_numbers_def record_bad_op_def record_missing_def
      record_unused_def record_variable_def record_declared_def lit_def)

lemma example_record_lines:
  "record_line example_platform (lit ''error'') line_bad_op record_bad_op"
  "record_line example_platform (lit ''error'') line_missing record_missing"
  "record_line example_platform (lit ''warning'') line_unused record_unused"
  "record_line example_platform (lit ''variable'') line_variable record_variable"
  by (simp_all add: record_line_def example_JSON_parse example_parse_simps example_lines
      example_valid)
     (simp_all add: record_bad_op_def record_missing_def record_unused_def
       record_variable_def lit_def)

lemma example_diagnostics:
  "diagnostic_of example_platform (JObject record_bad_op) =
     new_Message (JString (lit ''bad op''))
       (Some (new_Range (new_Position (JNumber (Num 2)) (JNumber (Num 4)))
                        (new_Position (JNumber (Num 2)) (JNumber (Num 8)))))"
  "diagnostic_of example_platform (JObject record_missing) =
     new_Message (JString (lit ''missing ;'')) None"
  by (simp_all add: diagnostic_of_def position_of_def field_def js_or_def parsePosition_def
      minus_one_Num round_double_exact record_bad_op_def record_missing_def lit_def)




text \<open>
  A record whose position cannot be converted to a number: the first line is an object
  with a \<open>toString\<close> property of its own. The subtraction of line 158 is a TypeError,
  and the line is logged and dropped.
\<close>

lemma unconvertible_line_dropped:
  "decode_line example_platform (info, con) line_unconvertible =
     (info, con @ [parse_failure line_unconvertible])"
proof -
  have "parsePosition example_platform (JObject record_unconvertible) = None"
    by (simp add: parsePosition_def record_unconvertible_def minus_one_def ToNumber_def
        lit_def)
  then have "preload_position example_platform (JObject record_unconvertible) = None"
    by (simp add: preload_position_def record_unconvertible_def lit_def)
  then have "decode_message example_platform new_ParseInfo (JObject record_unconvertible) = None"
    by (simp add: decode_message_object)
  then have "raises example_platform line_unconvertible"
    by (simp add: raises_def example_JSON_parse example_parse_simps example_lines)
  then show ?thesis
    by (rule decode_line_raises)
qed

lemma those_map_Some:
  "\<forall>x\<in>set xs. \<exists>y. f x = Some y \<Longrightarrow> \<exists>ys. those (map f xs) = Some ys"
  by (induction xs) auto

lemma parsePosition_position:
  assumes "is_RawMessagePosition p"
  shows "\<exists>r. parsePosition pf p = Some r"
proof -
  from assms obtain kvs where "p = JObject kvs"
    by (auto simp: is_RawMessagePosition_def split: jsval.splits)
  with assms show ?thesis
    using parsePosition_RawMessagePosition [of kvs pf]
    by (simp add: is_RawMessagePosition_def)
qed

lemma positions_mapped:
  assumes "absent_or is_positions v"
  shows "\<exists>rs. those (map (parsePosition pf) (for_in v)) = Some rs"
proof (cases "v = JUndefined")
  case True
  then show ?thesis by simp
next
  case False
  with assms obtain xs where v: "v = JArray xs" and "list_all is_RawMessagePosition xs"
    by (auto simp: absent_or_def is_positions_def split: jsval.splits)
  then have "\<forall>x\<in>set xs. \<exists>y. parsePosition pf x = Some y"
    using parsePosition_position by (auto simp: list_all_iff)
  then show ?thesis
    unfolding v by (simp add: those_map_Some)
qed

lemma comment_mapped:
  assumes "absent_or is_string v"
  shows "comment_of v =
           Some (case v of JString s \<Rightarrow> JString (parseComment s) | _ \<Rightarrow> JUndefined)"
  using assms
  by (cases v) (simp_all add: absent_or_def is_string_def comment_of_def parseComment_def)

text \<open>
  Claim C10: a valid \<open>variable\<close> record whose \<open>definitions\<close> or \<open>usage\<close> field is
  absent is decoded without an exception: a \<open>VariableInfo\<close> is appended, the sequence
  of the absent field is empty and the other one is mapped in order.
\<close>

theorem variable_with_absent_sequence:
  assumes "is_RawMessage (JObject kvs)"
    and "map_of kvs (lit ''type'') = Some (JString (lit ''variable''))"
    and "map_of kvs (lit ''definitions'') = None \<or> map_of kvs (lit ''usage'') = None"
  shows "\<exists>ds us.
           decode_message pf info (JObject kvs) =
             Some (info\<lparr>variables := variables info @
                     [\<lparr>name = field (JObject kvs) (lit ''variable''),
                       comment = (case field (JObject kvs) (lit ''comment'') of
                                    JString s \<Rightarrow> JString (parseComment s)
                                  | _ \<Rightarrow> JUndefined),
                       definitions = ds, usage = us\<rparr>]\<rparr>) \<and>
           those (map (parsePosition pf) (for_in (field (JObject kvs) (lit ''definitions''))))
             = Some ds \<and>
           those (map (parsePosition pf) (for_in (field (JObject kvs) (lit ''usage''))))
             = Some us \<and>
           (map_of kvs (lit ''definitions'') = None \<longrightarrow> ds = []) \<and>
           (map_of kvs (lit ''usage'') = None \<longrightarrow> us = [])"
proof -
  let ?m = "JObject kvs"
  from assms(1) have c: "absent_or is_string (field ?m (lit ''comment''))"
    and d: "absent_or is_positions (field ?m (lit ''definitions''))"
    and u: "absent_or is_positions (field ?m (lit ''usage''))"
    and l: "absent_or is_numbers (field ?m (lit ''line''))"
    and k: "absent_or is_numbers (field ?m (lit ''column''))"
    by (simp_all add: is_RawMessage_def)
  obtain ds where ds: "those (map (parsePosition pf) (for_in (field ?m (lit ''definitions''))))
      = Some ds"
    using positions_mapped [OF d] by blast
  obtain us where us: "those (map (parsePosition pf) (for_in (field ?m (lit ''usage''))))
      = Some us"
    using positions_mapped [OF u] by blast
  have t: "field ?m (lit ''type'') = JString (lit ''variable'')"
    using assms(2) by (simp add: field_def)
  have ne: "lit ''variable'' \<noteq> lit ''error''" "lit ''variable'' \<noteq> lit ''warning''"
    by (simp_all add: lit_def)
  have p: "preload_position pf ?m = Some (position_of pf ?m)"
    using l k by (rule preload_position_valid)
  have dec: "decode_message pf info ?m =
             Some (info\<lparr>variables := variables info @
                     [\<lparr>name = field ?m (lit ''variable''),
                       comment = (case field ?m (lit ''comment'') of
                                    JString s \<Rightarrow> JString (parseComment s)
                                  | _ \<Rightarrow> JUndefined),
                       definitions = ds, usage = us\<rparr>]\<rparr>)"
    by (simp add: decode_message_object p t loose_eq_JString ne comment_mapped [OF c] ds us)
  have d0: "ds = []" if "map_of kvs (lit ''definitions'') = None"
    using ds that by (simp add: field_def)
  have u0: "us = []" if "map_of kvs (lit ''usage'') = None"
    using us that by (simp add: field_def)
  show ?thesis
    using d0 u0 by (simp add: dec ds us)
qed

theorem variable_with_absent_sequence_witness:
  "decode_message example_platform new_ParseInfo (JObject record_variable) =
     Some \<lparr>errors = [], warnings = [],
           variables =
             [\<lparr>name = JString (lit ''_x''), comment = JString (lit ''note''),
               definitions = [],
               usage = [new_Range (new_Position (JNumber (Num 0)) (JNumber (Num 0)))
                                  (new_Position (JNumber (Num 0)) (JNumber (Num 2)))]\<rparr>]\<rparr>"
proof -
  have t: "map_of record_variable (lit ''type'') = Some (JString (lit ''variable''))"
    by (simp add: record_variable_def lit_def)
  have a: "map_of record_variable (lit ''definitions'') = None \<or>
           map_of record_variable (lit ''usage'') = None"
    by (simp add: record_variable_def lit_def)
  have u: "those (map (parsePosition example_platform)
              (for_in (field (JObject record_variable) (lit ''usage'')))) =
           Some [new_Range (new_Position (JNumber (Num 0)) (JNumber (Num 0)))
                           (new_Position (JNumber (Num 0)) (JNumber (Num 2)))]"
    by (simp add: field_def record_variable_def parsePosition_def minus_one_Num
        round_double_exact lit_def)
  have d: "map_of record_variable (lit ''definitions'') = None"
    by (simp add: record_variable_def lit_def)
  have n: "field (JObject record_variable) (lit ''variable'') = JString (lit ''_x'')"
    by (simp add: field_def record_variable_def lit_def)
  have c: "field (JObject record_variable) (lit ''comment'') = JString (lit ''// note'')"
    by (simp add: field_def record_variable_def lit_def)
  have p: "parseComment (lit ''// note'') = lit ''note''"
    by code_simp
  show ?thesis
    using variable_with_absent_sequence [OF example_valid(4) t a,
        of example_platform new_ParseInfo]
    by (auto simp: u d n c p new_ParseInfo_def)
qed

text \<open>
  The scenario of the specification: a chunk with an \<open>error\<close> record and a \<open>variable\<close>
  record, each line ended by a newline.
\<close>

lemma decode_line_declared:
  "decode_line example_platform (info, con) line_declared =
     (info\<lparr>variables := variables info @
        [\<lparr>name = JString (lit ''_x''), comment = JString (lit ''note''),
          definitions = [new_Range (new_Position (JNumber (Num 0)) (JNumber (Num 0)))
                                   (new_Position (JNumber (Num 0)) (JNumber (Num 2)))],
          usage = []\<rparr>]\<rparr>, con)"
proof -
  have p: "parseComment (lit ''// note'') = lit ''note''"
    by code_simp
  have c: "comment_of (JString (lit ''// note'')) = Some (JString (lit ''note''))"
    by (simp add: comment_of_def p) (simp add: lit_def)
  have f: "field (JObject record_declared) (lit ''type'') = JString (lit ''variable'')"
    "field (JObject record_declared) (lit ''variable'') = JString (lit ''_x'')"
    "field (JObject record_declared) (lit ''comment'') = JString (lit ''// note'')"
    "field (JObject record_declared) (lit ''usage'') = JArray []"
    "field (JObject record_declared) (lit ''definitions'') =
       JArray [JObject [(lit ''line'', JArray [JNumber (Num 1), JNumber (Num 1)]),
                        (lit ''column'', JArray [JNumber (Num 1), JNumber (Num 2)])]]"
    by (simp_all add: field_def record_declared_def lit_def)
  have d: "parsePosition example_platform
       (JObject [(lit ''line'', JArray [JNumber (Num 1), JNumber (Num 1)]),
                 (lit ''column'', JArray [JNumber (Num 1), JNumber (Num 2)])]) =
     Some (new_Range (new_Position (JNumber (Num 0)) (JNumber (Num 0)))
                     (new_Position (JNumber (Num 0)) (JNumber (Num 2))))"
    by (simp add: parsePosition_def minus_one_Num round_double_exact lit_def)
  have ne: "lit ''variable'' \<noteq> lit ''error''" "lit ''variable'' \<noteq> lit ''warning''"
    by (simp_all add: lit_def)
  have q: "preload_position example_platform (JObject record_declared) = Some None"
    by (rule preload_position_absent) (simp add: record_declared_def lit_def)
  have "decode_message example_platform info (JObject record_declared) =
      Some (info\<lparr>variables := variables info @
        [\<lparr>name = JString (lit ''_x''), comment = JString (lit ''note''),
          definitions = [new_Range (new_Position (JNumber (Num 0)) (JNumber (Num 0)))
                                   (new_Position (JNumber (Num 0)) (JNumber (Num 2)))],
          usage = []\<rparr>]\<rparr>)"
    by (simp add: decode_message_object q f loose_eq_JString ne c d)
  then show ?thesis
    by (simp add: decode_line_def example_lines example_JSON_parse example_parse_simps)
qed

lemma scenario_chunk:
  "on_data example_platform (new_ParseInfo, [])
     (line_bad_op @ [0x0A] @ line_declared @ [0x0A]) =
   (\<lparr>errors =
       [new_Message (JString (lit ''bad op''))
          (Some (new_Range (new_Position (JNumber (Num 2)) (JNumber (Num 4)))
                           (new_Position (JNumber (Num 2)) (JNumber (Num 8)))))],
     warnings = [],
     variables =
       [\<lparr>name = JString (lit ''_x''), comment = JString (lit ''note''),
         definitions = [new_Range (new_Position (JNumber (Num 0)) (JNumber (Num 0)))
                                  (new_Position (JNumber (Num 0)) (JNumber (Num 2)))],
         usage = []\<rparr>]\<rparr>, [])"
proof -
  have "split_str (line_bad_op @ [0x0A] @ line_declared @ [0x0A]) 0x0A =
      [line_bad_op, line_declared, []]"
    using split_str_append [OF example_lines(1), of "line_declared @ [0x0A]"]
      split_str_append [OF example_lines(13), of "[]"]
    by simp
  then show ?thesis
    unfolding on_data_def
    by (simp add: decode_line_record [OF example_record_lines(1)] decode_line_declared
        example_diagnostics new_ParseInfo_def)
       (simp add: decode_line_def strip_newlines_def)
qed

section \<open>Properties of the process runner\<close>

lemma run_events_Nil: "run_events pf r [] = r"
  by (simp add: run_events_def)

lemma run_events_Cons: "run_events pf r (ev # evs) = run_events pf (handle pf r ev) evs"
  by (simp add: run_events_def)

lemma run_events_append:
  "run_events pf r (xs @ ys) = run_events pf (run_events pf r xs) ys"
  by (simp add: run_events_def)

lemma handle_data:
  assumes "run_info r = Some info"
  shows "handle pf r (Data chunk) =
           r\<lparr>run_info := Some (fst (on_data pf (info, console r) chunk)),
             console := snd (on_data pf (info, console r) chunk)\<rparr>"
  using assms by (simp add: handle_def Let_def)

lemma run_events_data:
  assumes "run_info r = Some info"
  shows "run_events pf r (map Data chunks) =
           r\<lparr>run_info := Some (fst (foldl (on_data pf) (info, console r) chunks)),
             console := snd (foldl (on_data pf) (info, console r) chunks)\<rparr>"
  using assms
proof (induction chunks arbitrary: r info)
  case Nil
  then show ?case by (simp add: run_events_Nil)
next
  case (Cons c cs)
  let ?st = "on_data pf (info, console r) c"
  let ?r = "r\<lparr>run_info := Some (fst ?st), console := snd ?st\<rparr>"
  have "run_events pf r (map Data (c # cs)) = run_events pf ?r (map Data cs)"
    by (simp add: run_events_Cons handle_data [OF Cons.prems])
  also have "\<dots> = ?r\<lparr>run_info := Some (fst (foldl (on_data pf) (fst ?st, console ?r) cs)),
             console := snd (foldl (on_data pf) (fst ?st, console ?r) cs)\<rparr>"
    by (rule Cons.IH) simp
  finally show ?case by simp
qed

lemma handle_close:
  assumes "run_info r = Some info"
  shows "handle pf r (Close code) =
           r\<lparr>console :=
                (if code \<noteq> Some 0
                 then console r @
                   [lit ''SQFLint: Failed to run sqflint. Do you have java installed?'']
                 else console r),
             calls := calls r @ [Success]\<rparr>"
  using assms by (simp add: handle_def)

lemma process_spawned:
  "run_info (process (Some ch) contents) = Some new_ParseInfo"
  "calls (process (Some ch) contents) = []"
  by (cases ch; simp add: process_def)+

lemma data_then_close:
  assumes "run_info r0 = Some info" and "calls r0 = []"
    and "st = foldl (on_data pf) (info, console r0) chunks"
    and "r = run_events pf r0 (map Data chunks @ [Close code])"
  shows "settlement r = Resolved (fst st)" and "calls r = [Success]"
    and "console r = snd st @
           (if code \<noteq> Some 0
            then [lit ''SQFLint: Failed to run sqflint. Do you have java installed?'']
            else [])"
    and "killed r = killed r0"
proof -
  let ?r1 = "r0\<lparr>run_info := Some (fst st), console := snd st\<rparr>"
  have "run_events pf r0 (map Data chunks) = ?r1"
    unfolding assms(3) using assms(1) by (rule run_events_data)
  then have "r = handle pf ?r1 (Close code)"
    by (simp add: assms(4) run_events_append run_events_Cons run_events_Nil)
  also have "\<dots> = ?r1\<lparr>console :=
                (if code \<noteq> Some 0
                 then console ?r1 @
                   [lit ''SQFLint: Failed to run sqflint. Do you have java installed?'']
                 else console ?r1),
             calls := calls ?r1 @ [Success]\<rparr>"
    by (rule handle_close) simp
  finally have r: "r = ?r1\<lparr>console :=
                (if code \<noteq> Some 0
                 then console ?r1 @
                   [lit ''SQFLint: Failed to run sqflint. Do you have java installed?'']
                 else console ?r1),
             calls := calls ?r1 @ [Success]\<rparr>" .
  show "settlement r = Resolved (fst st)" and "calls r = [Success]"
    and "console r = snd st @
           (if code \<noteq> Some 0
            then [lit ''SQFLint: Failed to run sqflint. Do you have java installed?'']
            else [])"
    and "killed r = killed r0"
    unfolding r using assms(2) by (simp_all add: settlement_def)
qed

text \<open>
  Claim C4: a run whose child was spawned, produced some chunks of output and closed
  with a code other than \<open>0\<close> calls \<open>success\<close> once and \<open>reject\<close> never: its promise is
  resolved with the result the chunks have accumulated, and the exit is only logged.
\<close>

theorem nonzero_exit_resolves:
  assumes "code \<noteq> Some 0"
    and "r0 = process (Some ch) contents"
    and "st = foldl (on_data pf) (new_ParseInfo, console r0) chunks"
    and "r = run_events pf r0 (map Data chunks @ [Close code])"
  shows "settlement r = Resolved (fst st) \<and> calls r = [Success] \<and>
         console r =
           snd st @ [lit ''SQFLint: Failed to run sqflint. Do you have java installed?'']"
  using data_then_close [OF _ _ assms(3,4)] assms(1)
  by (simp add: assms(2) process_spawned)

lemma on_data_unused:
  "on_data example_platform (new_ParseInfo, []) (line_unused @ [0x0A]) =
     (\<lparr>errors = [], warnings = [new_Message (JString (lit ''unused'')) None], variables = []\<rparr>, [])"
proof -
  have "preload_position example_platform (JObject record_unused) = Some None"
    by (rule preload_position_absent) (simp add: record_unused_def lit_def)
  moreover have "field (JObject record_unused) (lit ''type'') = JString (lit ''warning'')"
    "field (JObject record_unused) (lit ''error'') = JUndefined"
    "field (JObject record_unused) (lit ''message'') = JString (lit ''unused'')"
    "lit ''warning'' \<noteq> lit ''error''"
    by (simp_all add: field_def record_unused_def lit_def)
  ultimately have "decode_line example_platform (new_ParseInfo, []) line_unused =
      (\<lparr>errors = [], warnings = [new_Message (JString (lit ''unused'')) None], variables = []\<rparr>, [])"
    by (simp add: decode_line_def example_lines example_JSON_parse example_parse_simps
        decode_message_object loose_eq_JString text_of_def new_ParseInfo_def)
  moreover have "split_str (line_unused @ [0x0A]) 0x0A = [line_unused, []]"
    using split_str_append [OF example_lines(5), of "[]"] by simp
  ultimately show ?thesis
    by (simp add: on_data_def) (simp add: decode_line_def strip_newlines_def)
qed

theorem nonzero_exit_resolves_witness:
  "settlement (run_events example_platform (process (Some Accepts) (lit ''x = 1;''))
                 [Data (line_unused @ [0x0A]), Close (Some 1)]) =
     Resolved \<lparr>errors = [], warnings = [new_Message (JString (lit ''unused'')) None],
               variables = []\<rparr>"
proof -
  have c: "Some (1::int) \<noteq> Some 0" by simp
  have k: "console (process (Some Accepts) (lit ''x = 1;'')) = []"
    by (simp add: process_def)
  show ?thesis
    using nonzero_exit_resolves [where pf = example_platform and ch = Accepts
        and contents = "lit ''x = 1;''" and chunks = "[line_unused @ [0x0A]]",
        OF c refl refl refl]
    by (simp add: k on_data_unused)
qed

text \<open>
  Claim C5, as amended: when \<open>write\<close> (or \<open>end\<close>) throws, the failure is logged and the
  child is killed; \<open>process\<close> calls no callback, so the promise stays pending, and the
  \<open>close\<close> event of the child then resolves it with the accumulated result.
\<close>

theorem write_failure_kills_and_resolves:
  assumes "ch = WriteThrows ex \<or> ch = EndThrows ex"
    and "r0 = process (Some ch) contents"
    and "st = foldl (on_data pf) (new_ParseInfo, console r0) chunks"
    and "r = run_events pf r0 (map Data chunks @ [Close code])"
  shows "killed r0 \<and> calls r0 = [] \<and> settlement r0 = Pending \<and>
         console r0 = [lit ''SQFLint: Failed to contact the sqflint. Ex: '' @ ex] \<and>
         settlement r = Resolved (fst st)"
proof -
  have "killed r0 \<and> calls r0 = [] \<and> settlement r0 = Pending \<and>
         console r0 = [lit ''SQFLint: Failed to contact the sqflint. Ex: '' @ ex]"
    using assms(1) by (auto simp: assms(2) process_def settlement_def)
  moreover have "settlement r = Resolved (fst st)"
    using data_then_close(1) [OF _ _ assms(3,4)] by (simp add: assms(2) process_spawned)
  ultimately show ?thesis by simp
qed

theorem write_failure_kills_and_resolves_witness:
  "killed (process (Some (WriteThrows (lit ''Error: write EPIPE''))) (lit ''x = 1;'')) \<and>
   settlement (run_events example_platform
      (process (Some (WriteThrows (lit ''Error: write EPIPE''))) (lit ''x = 1;''))
      [Close None]) = Resolved new_ParseInfo"
proof -
  have d: "WriteThrows (lit ''Error: write EPIPE'') = WriteThrows (lit ''Error: write EPIPE'') \<or>
           WriteThrows (lit ''Error: write EPIPE'') = EndThrows (lit ''Error: write EPIPE'')"
    by simp
  show ?thesis
    using write_failure_kills_and_resolves [where pf = example_platform
        and contents = "lit ''x = 1;''" and chunks = "[]" and code = None,
        OF d refl refl refl]
    by simp
qed

text \<open>
  Claim C5 as stated fails: after a failed write the promise is not rejected, and the
  \<open>close\<close> event of the killed child (exit code \<open>null\<close>) resolves it.
\<close>

theorem write_failure_not_rejected:
  "settlement (process (Some (WriteThrows (lit ''Error: write EPIPE''))) (lit ''x = 1;'')) =
     Pending \<and>
   calls (process (Some (WriteThrows (lit ''Error: write EPIPE''))) (lit ''x = 1;'')) = [] \<and>
   settlement (run_events example_platform
      (process (Some (WriteThrows (lit ''Error: write EPIPE''))) (lit ''x = 1;''))
      [Close None]) = Resolved new_ParseInfo"
  by (simp add: process_def settlement_def run_events_def handle_def)

text \<open>
  The only other call of \<open>reject\<close> in a run is the handler of the \<open>error\<close> event of
  the child.
\<close>

lemma error_event_rejects:
  assumes "run_info r0 = Some info" and "calls r0 = []"
    and "r = run_events pf r0 (map Data chunks @ [ErrorEvent msg])"
  shows "settlement r = Rejected msg"
proof -
  let ?st = "foldl (on_data pf) (info, console r0) chunks"
  let ?r1 = "r0\<lparr>run_info := Some (fst ?st), console := snd ?st\<rparr>"
  have "run_events pf r0 (map Data chunks) = ?r1"
    using assms(1) by (rule run_events_data)
  then have "r = handle pf ?r1 (ErrorEvent msg)"
    by (simp add: assms(3) run_events_append run_events_Cons run_events_Nil)
  then show ?thesis
    using assms(2) by (simp add: handle_def settlement_def)
qed

lemma run_events_not_spawned: "run_info r = None \<Longrightarrow> run_events pf r evs = r"
  by (induction evs) (simp_all add: run_events_Nil run_events_Cons handle_def)

text \<open>
  Claim C6: when \<open>Java.spawn\<close> returns no child, \<open>reject\<close> is called at once with the
  text of the launch failure; no \<open>ParseInfo\<close> is created and no handler is registered,
  so no event changes the run and nothing is written or logged.
\<close>

theorem launch_failure_rejects:
  assumes "r = run_events pf (process None contents) evs"
  shows "settlement r = Rejected (JString (lit ''Failed to launch java process.'')) \<and>
         calls r = [Reject (JString (lit ''Failed to launch java process.''))] \<and>
         run_info r = None \<and> stdin r = [] \<and> \<not> killed r \<and> console r = []"
proof -
  have "run_info (process None contents) = None"
    by (simp add: process_def)
  then have "r = process None contents"
    unfolding assms by (rule run_events_not_spawned)
  then show ?thesis
    by (simp add: process_def settlement_def)
qed

theorem launch_failure_rejects_witness:
  "settlement (run_events example_platform (process None (lit ''x = 1;''))
                 [Data (line_bad_op @ [0x0A]), Close (Some 1)]) =
     Rejected (JString (lit ''Failed to launch java process.'')) \<and>
   run_info (run_events example_platform (process None (lit ''x = 1;''))
                 [Data (line_bad_op @ [0x0A]), Close (Some 1)]) = None"
  using launch_failure_rejects [where pf = example_platform and contents = "lit ''x = 1;''"
      and evs = "[Data (line_bad_op @ [0x0A]), Close (Some 1)]", OF refl]
  by simp

section \<open>Properties of the debounced scheduler\<close>

lemma stdin_handle: "stdin (handle pf r ev) = stdin r"
  by (simp add: handle_def Let_def split: option.splits event.splits)

lemma stdin_process: "set (stdin (process ch c)) \<subseteq> {c}"
  by (simp add: process_def split: option.splits child.splits)

lemma ids_allocated_new: "ids_allocated new_SQFLint"
  by (simp add: ids_allocated_def new_SQFLint_def)

lemma update_preserves:
  assumes "\<forall>x\<in>set xs. P x" and "P y"
  shows "\<forall>x\<in>set (xs[i := y]). P x"
  using assms set_update_subset_insert [of xs i y] by auto

lemma step_child:
  "step pf s (ChildEvent i ev) =
     (if i < length (runs s)
      then s\<lparr>runs := (runs s)[i := (fst (runs s ! i), handle pf (snd (runs s ! i)) ev)]\<rparr>
      else s)"
  by (simp add: step_def)

lemma ids_allocated_step:
  assumes "ids_allocated s"
  shows "ids_allocated (step pf s a)"
proof (cases a)
  case (Parse c)
  with assms show ?thesis
    by (auto simp: step_def parse_def ids_allocated_def Let_def less_Suc_eq
        split: option.splits prod.splits)
next
  case (Fire t ch)
  with assms show ?thesis
    by (auto simp: step_def runLint_def ids_allocated_def Let_def
        split: option.splits prod.splits)
next
  case (ChildEvent i ev)
  show ?thesis
  proof (cases "i < length (runs s)")
    case True
    let ?y = "(fst (runs s ! i), handle pf (snd (runs s ! i)) ev)"
    have all: "\<forall>e\<in>set (runs s). fst (fst e) < promises s"
      using assms by (simp add: ids_allocated_def)
    then have "fst (fst (runs s ! i)) < promises s"
      using True by simp
    then have "fst (fst ?y) < promises s"
      by simp
    with all have "\<forall>e\<in>set ((runs s)[i := ?y]). fst (fst e) < promises s"
      by (rule update_preserves)
    with assms True show ?thesis
      unfolding ChildEvent step_child by (simp add: ids_allocated_def)
  next
    case False
    with assms show ?thesis
      unfolding ChildEvent step_child by simp
  qed
qed

lemma ids_allocated_steps: "ids_allocated s \<Longrightarrow> ids_allocated (steps pf s as)"
  unfolding steps_def by (induction as arbitrary: s) (simp_all add: ids_allocated_step)

lemma only_second_step:
  assumes "only_second p1 p2 c2 s"
  shows "only_second p1 p2 c2 (step pf s a)"
proof (cases a)
  case (Parse c)
  with assms show ?thesis
    by (auto simp: step_def parse_def only_second_def Let_def
        split: option.splits prod.splits)
next
  case (Fire t ch)
  with assms stdin_process show ?thesis
    by (auto simp: step_def runLint_def only_second_def run_of_second_def Let_def
        split: option.splits prod.splits)
next
  case (ChildEvent i ev)
  show ?thesis
  proof (cases "i < length (runs s)")
    case True
    let ?y = "(fst (runs s ! i), handle pf (snd (runs s ! i)) ev)"
    have all: "\<forall>e\<in>set (runs s). run_of_second p1 p2 c2 e"
      using assms by (simp add: only_second_def)
    then have "run_of_second p1 p2 c2 (runs s ! i)"
      using True by simp
    then have "run_of_second p1 p2 c2 ?y"
      by (simp add: run_of_second_def stdin_handle)
    with all have "\<forall>e\<in>set ((runs s)[i := ?y]). run_of_second p1 p2 c2 e"
      by (rule update_preserves)
    with assms True show ?thesis
      unfolding ChildEvent step_child by (simp add: only_second_def)
  next
    case False
    with assms show ?thesis
      unfolding ChildEvent step_child by simp
  qed
qed

lemma only_second_steps: "only_second p1 p2 c2 s \<Longrightarrow> only_second p1 p2 c2 (steps pf s as)"
  unfolding steps_def by (induction as arbitrary: s) (simp_all add: only_second_step)

lemma parse_fields:
  "fst (parse c s) = promises s"
  "top' (snd (parse c s)) = Some (promises s, c)"
  "timeout (snd (parse c s)) = Some (promises s)"
  "timers (snd (parse c s)) =
     insert (promises s) (case timeout s of None \<Rightarrow> timers s | Some t \<Rightarrow> timers s - {t})"
  "promises (snd (parse c s)) = Suc (promises s)"
  "runs (snd (parse c s)) = runs s"
  "rejected (snd (parse c s)) =
     (case timeout s of
        None \<Rightarrow> rejected s
      | Some t \<Rightarrow> (case top' s of None \<Rightarrow> rejected s | Some (p, c') \<Rightarrow> rejected s @ [p]))"
  by (simp_all add: parse_def Let_def split: option.splits prod.splits)

lemma runLint_fields:
  "timers (runLint ch s) = timers s"
  "timeout (runLint ch s) = None"
  "top' (runLint ch s) = None"
  "promises (runLint ch s) = promises s"
  "runs (runLint ch s) =
     (case top' s of None \<Rightarrow> runs s | Some (p, c) \<Rightarrow> runs s @ [((p, c), process ch c)])"
  by (simp_all add: runLint_def Let_def split: option.splits prod.splits)

lemma step_parse: "step pf s (Parse c) = snd (parse c s)"
  by (simp add: step_def)

lemma step_fire:
  "step pf s (Fire t ch) =
     (if t \<in> timers s then runLint ch (s\<lparr>timers := timers s - {t}\<rparr>) else s)"
  by (simp add: step_def)

lemma armed_is_pending_new: "armed_is_pending new_SQFLint"
  by (simp add: armed_is_pending_def new_SQFLint_def)

lemma cleared_timers:
  assumes "armed_is_pending s"
  shows "(case timeout s of None \<Rightarrow> timers s | Some t \<Rightarrow> timers s - {t}) = {}"
  using assms by (cases "timeout s") (auto simp: armed_is_pending_def)

lemma parse_timers:
  assumes "armed_is_pending s"
  shows "timers (snd (parse c s)) = {promises s}"
  by (simp add: parse_fields(4) cleared_timers [OF assms])

lemma armed_alone:
  assumes "armed_is_pending s" and "t \<in> timers s"
  shows "timers s - {t} = {}"
proof -
  have "x = t" if "x \<in> timers s" for x
  proof -
    from assms that have "timeout s = Some x" and "timeout s = Some t"
      unfolding armed_is_pending_def by blast+
    then show ?thesis by simp
  qed
  then show ?thesis by auto
qed

lemma armed_is_pending_step:
  assumes "armed_is_pending s"
  shows "armed_is_pending (step pf s a)"
proof (cases a)
  case (Parse c)
  have "timers (snd (parse c s)) = {promises s}"
    using assms by (rule parse_timers)
  then show ?thesis
    unfolding Parse step_parse by (simp add: armed_is_pending_def parse_fields(2,3))
next
  case (Fire t ch)
  show ?thesis
  proof (cases "t \<in> timers s")
    case True
    with assms have "timers s - {t} = {}"
      by (rule armed_alone)
    with True show ?thesis
      unfolding Fire step_fire by (auto simp: armed_is_pending_def runLint_fields)
  next
    case False
    with assms show ?thesis
      unfolding Fire step_fire by simp
  qed
next
  case (ChildEvent i ev)
  with assms show ?thesis
    by (simp add: step_child armed_is_pending_def)
qed

lemma armed_is_pending_steps: "armed_is_pending s \<Longrightarrow> armed_is_pending (steps pf s as)"
  unfolding steps_def by (induction as arbitrary: s) (simp_all add: armed_is_pending_step)

lemma first_pending_step:
  assumes "armed_is_pending s" and "first_pending p1 c1 s"
  shows "first_pending p1 c1 (step pf s a)"
proof (cases a)
  case (Parse c)
  have lt: "p1 < promises s"
    using assms(2) by (simp add: first_pending_def)
  have "timers (snd (parse c s)) = {promises s}"
    using assms(1) by (rule parse_timers)
  with lt show ?thesis
    unfolding Parse step_parse by (simp add: first_pending_def parse_fields(2,5,6))
next
  case (Fire t ch)
  show ?thesis
  proof (cases "t \<in> timers s")
    case True
    with assms(1) have "timers s - {t} = {}"
      by (rule armed_alone)
    with True assms(2) show ?thesis
      unfolding Fire step_fire by (auto simp: first_pending_def runLint_fields)
  next
    case False
    with assms(2) show ?thesis
      unfolding Fire step_fire by simp
  qed
next
  case (ChildEvent i ev)
  show ?thesis
  proof (cases "i < length (runs s) \<and> p1 \<in> timers s")
    case True
    let ?y = "(fst (runs s ! i), handle pf (snd (runs s ! i)) ev)"
    have all: "\<forall>e\<in>set (runs s). fst (fst e) \<noteq> p1"
      using assms(2) True by (simp add: first_pending_def)
    then have "fst (fst (runs s ! i)) \<noteq> p1"
      using True by simp
    then have "fst (fst ?y) \<noteq> p1"
      by simp
    with all have "\<forall>e\<in>set ((runs s)[i := ?y]). fst (fst e) \<noteq> p1"
      by (rule update_preserves)
    with assms(2) True show ?thesis
      unfolding ChildEvent step_child by (simp add: first_pending_def)
  next
    case False
    with assms(2) show ?thesis
      unfolding ChildEvent step_child by (auto simp: first_pending_def)
  qed
qed

lemma first_pending_steps:
  "armed_is_pending s \<Longrightarrow> first_pending p1 c1 s \<Longrightarrow> first_pending p1 c1 (steps pf s as)"
  unfolding steps_def
  by (induction as arbitrary: s) (simp_all add: first_pending_step armed_is_pending_step)

lemma parse_first:
  assumes "ids_allocated s0" and "(p1, s1) = parse c1 s0"
  shows "timeout s1 = Some p1" and "p1 \<in> timers s1" and "top' s1 = Some (p1, c1)"
    and "first_pending p1 c1 s1"
proof -
  from assms(2) have "fst (parse c1 s0) = p1" and "snd (parse c1 s0) = s1"
    by (metis fst_conv, metis snd_conv)
  then have p1: "p1 = promises s0" and s1: "s1 = snd (parse c1 s0)"
    by (simp_all add: parse_fields(1))
  have "\<forall>e\<in>set (runs s0). fst (fst e) \<noteq> promises s0"
    using assms(1) by (auto simp: ids_allocated_def)
  then show "timeout s1 = Some p1" and "p1 \<in> timers s1" and "top' s1 = Some (p1, c1)"
    and "first_pending p1 c1 s1"
    unfolding p1 s1 by (simp_all add: parse_fields first_pending_def)
qed

lemma parse_second:
  assumes "timeout s1 = Some p1" and "top' s1 = Some (p1, c1)" and "p1 < promises s1"
    and "(p2, s2) = parse c2 s1"
  shows "rejected s2 = rejected s1 @ [p1]" and "p1 \<notin> timers s2"
    and "top' s2 = Some (p2, c2)" and "timeout s2 = Some p2" and "p2 \<in> timers s2"
    and "p2 = promises s1" and "promises s2 = Suc p2" and "runs s2 = runs s1"
proof -
  from assms(4) have "fst (parse c2 s1) = p2" and "snd (parse c2 s1) = s2"
    by (metis fst_conv, metis snd_conv)
  then have p2: "p2 = promises s1" and s2: "s2 = snd (parse c2 s1)"
    by (simp_all add: parse_fields(1))
  show "rejected s2 = rejected s1 @ [p1]" and "p1 \<notin> timers s2"
    and "top' s2 = Some (p2, c2)" and "timeout s2 = Some p2" and "p2 \<in> timers s2"
    and "p2 = promises s1" and "promises s2 = Suc p2" and "runs s2 = runs s1"
    unfolding p2 s2 using assms(1-3) by (simp_all add: parse_fields)
qed

text \<open>
  Claim C1: when \<open>parse\<close> is called a second time while the timer of the first call is
  still armed (whatever events of running children came in between), the promise of the
  first call is rejected, its timer is cleared and is never armed again, and the first
  call never gets a run. The timer of the second call, when it fires, hands the second
  contents to \<open>process\<close>, which writes it to the child; whatever happens later, every
  run of the second promise was handed the second contents and has written nothing else.
\<close>

theorem superseded_call_rejected:
  assumes "s0 = steps pf new_SQFLint as0"
    and "(p1, s1) = parse c1 s0"
    and "s1' = steps pf s1 mid" and "p1 \<in> timers s1'"
    and "(p2, s2) = parse c2 s1'"
    and "s = steps pf s2 as"
  shows "timeout s1 = Some p1 \<and> p1 \<in> timers s1 \<and>
         rejected s2 = rejected s1' @ [p1] \<and> p1 \<notin> timers s \<and>
         top' s2 = Some (p2, c2) \<and> p2 \<in> timers s2 \<and>
         (\<forall>ch. runs (step pf s2 (Fire p2 ch)) = runs s2 @ [((p2, c2), process ch c2)]) \<and>
         stdin (process (Some Accepts) c2) = [c2] \<and>
         (\<forall>e\<in>set (runs s).
            fst (fst e) \<noteq> p1 \<and>
            (fst (fst e) = p2 \<longrightarrow> snd (fst e) = c2 \<and> set (stdin (snd e)) \<subseteq> {c2}))"
proof -
  have i0: "ids_allocated s0" and a0: "armed_is_pending s0"
    unfolding assms(1)
    by (simp_all add: ids_allocated_new ids_allocated_steps
        armed_is_pending_new armed_is_pending_steps)
  note f1 = parse_first [OF i0 assms(2)]
  have "s1 = step pf s0 (Parse c1)"
    unfolding step_parse using assms(2) by (metis snd_conv)
  then have i1: "ids_allocated s1" and a1: "armed_is_pending s1"
    using i0 a0 by (simp_all add: ids_allocated_step armed_is_pending_step)
  have i1': "ids_allocated s1'" and a1': "armed_is_pending s1'"
    and p1': "first_pending p1 c1 s1'"
    unfolding assms(3) using i1 a1 f1(4)
    by (simp_all add: ids_allocated_steps armed_is_pending_steps first_pending_steps)
  from a1' assms(4) have t1': "timeout s1' = Some p1"
    by (simp add: armed_is_pending_def)
  from p1' assms(4) have top1': "top' s1' = Some (p1, c1)"
    and lt: "p1 < promises s1'"
    and norun: "\<forall>e\<in>set (runs s1'). fst (fst e) \<noteq> p1"
    by (simp_all add: first_pending_def)
  note f2 = parse_second [OF t1' top1' lt assms(5)]
  have old: "\<forall>e\<in>set (runs s1'). fst (fst e) < p2"
    using i1' by (simp add: ids_allocated_def f2(6))
  have "only_second p1 p2 c2 s2"
    using old norun lt f2 by (auto simp: only_second_def run_of_second_def)
  then have inv: "only_second p1 p2 c2 s"
    unfolding assms(6) by (rule only_second_steps)
  have fire: "runs (step pf s2 (Fire p2 ch)) = runs s2 @ [((p2, c2), process ch c2)]" for ch
    using f2(3,5) by (simp add: step_fire runLint_fields)
  have wr: "stdin (process (Some Accepts) c2) = [c2]"
    by (simp add: process_def)
  from inv have "p1 \<notin> timers s"
    and "\<forall>e\<in>set (runs s).
            fst (fst e) \<noteq> p1 \<and>
            (fst (fst e) = p2 \<longrightarrow> snd (fst e) = c2 \<and> set (stdin (snd e)) \<subseteq> {c2})"
    by (simp_all add: only_second_def run_of_second_def)
  with f1(1,2) f2(1,3,5) fire wr show ?thesis
    by simp
qed

lemma one_call_value:
  "parse (lit ''a = 1;'') new_SQFLint =
     (0, \<lparr>top' = Some (0, lit ''a = 1;''), timeout = Some 0, timers = {0}, promises = 1,
          rejected = [], runs = [], uncaught = 0\<rparr>)"
  by (simp add: parse_def new_SQFLint_def)

lemma two_calls_value:
  "parse (lit ''b = 2;'') (snd (parse (lit ''a = 1;'') new_SQFLint)) =
     (1, \<lparr>top' = Some (1, lit ''b = 2;''), timeout = Some 1, timers = {1}, promises = 2,
          rejected = [0], runs = [], uncaught = 0\<rparr>)"
  by (simp add: one_call_value) (simp add: parse_def)

theorem superseded_call_rejected_witness:
  "rejected two_calls = [0] \<and> timers two_calls = {1} \<and>
   runs (steps example_platform two_calls [Fire 0 (Some Accepts), Fire 1 (Some Accepts)]) =
     [((1, lit ''b = 2;''), process (Some Accepts) (lit ''b = 2;''))] \<and>
   stdin (process (Some Accepts) (lit ''b = 2;'')) = [lit ''b = 2;'']"
proof -
  let ?s1 = "snd (parse (lit ''a = 1;'') new_SQFLint)"
  have s0: "new_SQFLint = steps example_platform new_SQFLint []"
    by (simp add: steps_def)
  have c1: "(0, ?s1) = parse (lit ''a = 1;'') new_SQFLint"
    by (simp add: one_call_value)
  have m: "?s1 = steps example_platform ?s1 []"
    by (simp add: steps_def)
  have a: "0 \<in> timers ?s1"
    by (simp add: one_call_value)
  have c2: "(1, two_calls) = parse (lit ''b = 2;'') ?s1"
    by (simp add: two_calls_def two_calls_value)
  have v: "two_calls = \<lparr>top' = Some (1, lit ''b = 2;''), timeout = Some 1, timers = {1},
          promises = 2, rejected = [0], runs = [], uncaught = 0\<rparr>"
    by (simp add: two_calls_def two_calls_value)
  have r: "runs (steps example_platform two_calls [Fire 0 (Some Accepts), Fire 1 (Some Accepts)]) =
      [((1, lit ''b = 2;''), process (Some Accepts) (lit ''b = 2;''))]"
    by (simp add: steps_def step_def runLint_def v)
  have w: "stdin (process (Some Accepts) (lit ''b = 2;'')) = [lit ''b = 2;'']"
    by (simp add: process_def)
  have "rejected two_calls = [0]" and "timers two_calls = {1}"
    by (simp_all add: v)
  with r w show ?thesis
    using superseded_call_rejected [where pf = example_platform and ?as0.0 = "[]"
        and mid = "[]" and as = "[Fire 0 (Some Accepts), Fire 1 (Some Accepts)]",
        OF s0 c1 m a c2 refl]
    by simp
qed

end
